theory Spec2Isabelle
  imports Main "HOL-Library.Word"
begin

unbundle bit_operations_syntax

section \<open>JavaScript values used by the server\<close>

text \<open>
  A JavaScript string is a sequence of UTF-16 code units and a \<open>Buffer\<close> a sequence of
  bytes. The literals of \<open>src/index.ts\<close> are ASCII apart from one message of the download
  tool, whose code units are written out.
\<close>

type_synonym jsstring = "16 word list"
type_synonym buffer = "8 word list"

definition js :: "string \<Rightarrow> jsstring" where
  "js s = map of_char s"

text \<open>\<open>Array.prototype.join\<close> on an array of strings.\<close>

fun join :: "jsstring \<Rightarrow> jsstring list \<Rightarrow> jsstring" where
  "join sep [] = []"
| "join sep [x] = x"
| "join sep (x # y # ys) = x @ sep @ join sep (y # ys)"

text \<open>
  The code units that \<open>String.prototype.trim\<close> and the \<open>StrWhiteSpace\<close> of
  \<open>Number(string)\<close> strip: ECMAScript's WhiteSpace (TAB, VT, FF, SP, NBSP, ZWNBSP and
  the category Zs) and LineTerminator (LF, CR, LS, PS).
\<close>

definition isWhiteSpace :: "16 word \<Rightarrow> bool" where
  "isWhiteSpace c =
     (c = 0x09 \<or> c = 0x0A \<or> c = 0x0B \<or> c = 0x0C \<or> c = 0x0D \<or> c = 0x20 \<or> c = 0xA0
      \<or> c = 0x1680 \<or> (0x2000 \<le> c \<and> c \<le> 0x200A) \<or> c = 0x2028 \<or> c = 0x2029
      \<or> c = 0x202F \<or> c = 0x205F \<or> c = 0x3000 \<or> c = 0xFEFF)"

definition trim :: "jsstring \<Rightarrow> jsstring" where
  "trim s = rev (dropWhile isWhiteSpace (rev (dropWhile isWhiteSpace s)))"

text \<open>Truthiness of a value of type \<open>string | undefined\<close>: defined and not empty.\<close>

fun truthy :: "jsstring option \<Rightarrow> bool" where
  "truthy None = False"
| "truthy (Some s) = (s \<noteq> [])"

text \<open>A JavaScript number that is either \<open>NaN\<close> or an integer.\<close>

datatype jsnum = NaN | Num int

definition isDigit :: "16 word \<Rightarrow> bool" where
  "isDigit c = (0x30 \<le> c \<and> c \<le> 0x39)"

definition isHexDigit :: "16 word \<Rightarrow> bool" where
  "isHexDigit c = (isDigit c \<or> (0x41 \<le> c \<and> c \<le> 0x46) \<or> (0x61 \<le> c \<and> c \<le> 0x66))"

definition digitVal :: "16 word \<Rightarrow> nat" where
  "digitVal c =
     (if isDigit c then unat c - 0x30
      else if 0x41 \<le> c \<and> c \<le> 0x46 then unat c - 0x41 + 10
      else unat c - 0x61 + 10)"

text \<open>Decimal rendering of an integer, as a template literal prints a number.\<close>

function digitsOf :: "nat \<Rightarrow> jsstring" where
  "digitsOf n = (if n < 10 then [of_nat (0x30 + n)] else digitsOf (n div 10) @ [of_nat (0x30 + n mod 10)])"
  by pat_completeness auto
termination
  by (relation "measure id") auto

declare digitsOf.simps [simp del]

definition numToString :: "int \<Rightarrow> jsstring" where
  "numToString i = (if i < 0 then 0x2D # digitsOf (nat (- i)) else digitsOf (nat i))"

subsection \<open>Decoding a buffer\<close>






subsection \<open>Errors\<close>

text \<open>
  \<open>ErrorCode\<close> is the enumeration of the MCP SDK. A thrown value is either an
  \<open>McpError\<close> (code and the message given to its constructor) or another \<open>Error\<close>
  object (its \<open>name\<close> and \<open>message\<close>), as raised by \<open>fs\<close> or by the runtime.
\<close>

datatype ErrorCode =
  ConnectionClosed | RequestTimeout | ParseError | InvalidRequest | MethodNotFound
  | InvalidParams | InternalError

datatype jsError = McpError ErrorCode jsstring | JsError jsstring jsstring

text \<open>
  The \<open>catch\<close> block shared by the tools: an \<open>McpError\<close> is thrown again unchanged,
  anything else is wrapped as \<open>InternalError\<close> with \<open>prefix + (err?.message || err)\<close>.
  An \<open>Error\<close> whose message is empty prints as its name.
\<close>

fun rethrow :: "jsstring \<Rightarrow> jsError \<Rightarrow> jsError" where
  "rethrow prefix (McpError c m) = McpError c m"
| "rethrow prefix (JsError name m) = McpError InternalError (prefix @ (if m \<noteq> [] then m else name))"

section \<open>Startup configuration\<close>

text \<open>\<open>argvConfig\<close>: the \<open>Record<string, string>\<close> built from the \<open>--key=value\<close> arguments.\<close>

type_synonym config = "jsstring \<rightharpoonup> jsstring"

text \<open>
  \<open>parseArgv\<close>: an argument matches \<open>/^--([^=]+)=(.*)$/\<close> when it starts with \<open>--\<close>,
  has at least one code unit before the first \<open>=\<close>, and no line terminator after it
  (\<open>.\<close> does not match LF, CR, LS, PS). A later argument overwrites an earlier one.
\<close>

definition isLineTerminator :: "16 word \<Rightarrow> bool" where
  "isLineTerminator c = (c = 0x0A \<or> c = 0x0D \<or> c = 0x2028 \<or> c = 0x2029)"

definition matchArg :: "jsstring \<Rightarrow> (jsstring \<times> jsstring) option" where
  "matchArg arg =
     (if take 2 arg = [0x2D, 0x2D] then
        (let r = drop 2 arg; k = takeWhile (\<lambda>c. c \<noteq> 0x3D) r; v = drop (length k) r
         in if k \<noteq> [] \<and> v \<noteq> [] \<and> list_all (\<lambda>c. \<not> isLineTerminator c) (tl v)
            then Some (k, tl v) else None)
      else None)"

definition parseArgv :: "jsstring list \<Rightarrow> config" where
  "parseArgv args =
     foldl (\<lambda>cfg arg. case matchArg arg of None \<Rightarrow> cfg | Some (k, v) \<Rightarrow> cfg(k \<mapsto> v))
       Map.empty args"

text \<open>
  \<open>isNaN(Number(s))\<close>: \<open>Number\<close> of a string is \<open>NaN\<close> exactly when the string is
  not a \<open>StringNumericLiteral\<close>: optional white space around nothing, around a signed
  decimal literal (\<open>Infinity\<close>, digits with an optional fraction and exponent) or around
  an unsigned binary, octal or hexadecimal integer literal.
\<close>

definition isSignedInteger :: "jsstring \<Rightarrow> bool" where
  "isSignedInteger s =
     (let d = (if s \<noteq> [] \<and> (hd s = 0x2B \<or> hd s = 0x2D) then tl s else s)
      in d \<noteq> [] \<and> list_all isDigit d)"

definition isExponentPartOpt :: "jsstring \<Rightarrow> bool" where
  "isExponentPartOpt s = (s = [] \<or> ((hd s = 0x65 \<or> hd s = 0x45) \<and> isSignedInteger (tl s)))"

definition isStrUnsignedDecimalLiteral :: "jsstring \<Rightarrow> bool" where
  "isStrUnsignedDecimalLiteral s =
     (s = js ''Infinity'' \<or>
      (let ip = takeWhile isDigit s; r = dropWhile isDigit s
       in if r \<noteq> [] \<and> hd r = 0x2E then
            (let fp = takeWhile isDigit (tl r); e = dropWhile isDigit (tl r)
             in (ip \<noteq> [] \<or> fp \<noteq> []) \<and> isExponentPartOpt e)
          else ip \<noteq> [] \<and> isExponentPartOpt r))"

definition isStrDecimalLiteral :: "jsstring \<Rightarrow> bool" where
  "isStrDecimalLiteral s =
     isStrUnsignedDecimalLiteral (if s \<noteq> [] \<and> (hd s = 0x2B \<or> hd s = 0x2D) then tl s else s)"

definition isNonDecimalIntegerLiteral :: "jsstring \<Rightarrow> bool" where
  "isNonDecimalIntegerLiteral s =
     (let p = take 2 s; d = drop 2 s
      in d \<noteq> [] \<and>
         ((p = js ''0x'' \<or> p = js ''0X'') \<and> list_all isHexDigit d
          \<or> (p = js ''0o'' \<or> p = js ''0O'') \<and> list_all (\<lambda>c. 0x30 \<le> c \<and> c \<le> 0x37) d
          \<or> (p = js ''0b'' \<or> p = js ''0B'') \<and> list_all (\<lambda>c. c = 0x30 \<or> c = 0x31) d))"

definition numberIsNaN :: "jsstring \<Rightarrow> bool" where
  "numberIsNaN s =
     (let t = trim s in \<not> (t = [] \<or> isStrDecimalLiteral t \<or> isNonDecimalIntegerLiteral t))"

text \<open>
  \<open>parseInt(s)\<close> with no radix: leading white space and one sign are skipped, a
  \<open>0x\<close> prefix selects radix 16, and the longest prefix of digits is read; no digit
  gives \<open>NaN\<close>. The value is kept as the exact integer (a double is exact up to 2^53).
\<close>

definition parseInt :: "jsstring \<Rightarrow> jsnum" where
  "parseInt s =
     (let t = dropWhile isWhiteSpace s;
          neg = (t \<noteq> [] \<and> hd t = 0x2D);
          u = (if t \<noteq> [] \<and> (hd t = 0x2B \<or> hd t = 0x2D) then tl t else t);
          hex = (take 2 u = js ''0x'' \<or> take 2 u = js ''0X'');
          ds = (if hex then takeWhile isHexDigit (drop 2 u) else takeWhile isDigit u);
          v = foldl (\<lambda>a d. a * (if hex then 16 else 10) + digitVal d) 0 ds
      in if ds = [] then NaN else Num (if neg then - int v else int v))"

text \<open>
  \<open>validateConfig\<close> collects its messages in order and throws when there is one; the
  module calls it before the server object is created, so a throw ends the process.
\<close>

definition validateConfig :: "config \<Rightarrow> jsError + unit" where
  "validateConfig config =
     (let errors =
            (if \<not> truthy (config (js ''host'')) then [js ''Missing required --host''] else [])
          @ (if \<not> truthy (config (js ''user'')) then [js ''Missing required --user''] else [])
          @ (if truthy (config (js ''port'')) \<and> numberIsNaN (the (config (js ''port'')))
             then [js ''Invalid --port''] else [])
      in if length errors > 0
         then Inl (JsError (js ''Error'') (js ''Configuration error:\<newline>'' @ join (js ''\<newline>'') errors))
         else Inr ())"

text \<open>The module constants \<open>HOST\<close>, \<open>PORT\<close>, \<open>USER\<close>, \<open>PASSWORD\<close>, \<open>KEY\<close>.\<close>

record settings =
  HOST :: "jsstring option"
  PORT :: jsnum
  USER :: "jsstring option"
  PASSWORD :: "jsstring option"
  KEY :: "jsstring option"

definition readSettings :: "config \<Rightarrow> settings" where
  "readSettings argvConfig =
     \<lparr> HOST = argvConfig (js ''host''),
       PORT = (if truthy (argvConfig (js ''port'')) then parseInt (the (argvConfig (js ''port''))) else Num 22),
       USER = argvConfig (js ''user''),
       PASSWORD = argvConfig (js ''password''),
       KEY = argvConfig (js ''key'') \<rparr>"

text \<open>
  Module start, on \<open>process.argv.slice(2)\<close>: the constants are read and
  \<open>validateConfig(argvConfig)\<close> runs; the server exists only when it has not thrown.
\<close>

definition startup :: "jsstring list \<Rightarrow> jsError + settings" where
  "startup argv =
     (let argvConfig = parseArgv argv
      in case validateConfig argvConfig of
           Inl e \<Rightarrow> Inl e
         | Inr _ \<Rightarrow> Inr (readSettings argvConfig))"

section \<open>One connection per call\<close>

text \<open>The object handed to \<open>conn.connect\<close>.\<close>

record sshConfig =
  host :: "jsstring option"
  port :: jsnum
  username :: "jsstring option"
  password :: "jsstring option"
  privateKey :: "jsstring option"

text \<open>An element of the array \<open>sftp.readdir\<close> passes to its callback.\<close>

record entry =
  filename :: jsstring
  longname :: jsstring

text \<open>
  What a promise of \<open>execSftpCommand\<close> or \<open>execSshCommand\<close> resolves with: a
  \<open>Buffer\<close>, or the object \<open>{ content: [{ type: 'text', text }] }\<close>, kept as its text.
\<close>

datatype jsValue = VBuffer buffer | VContent jsstring

text \<open>
  Everything the code does to the outside, in the order it does it: reads and writes of
  local files, and the calls on the connection and its channels.
\<close>

datatype effect =
  ReadFile jsstring
  | WriteFile jsstring buffer
  | Connect sshConfig
  | SftpOpen
  | CreateWriteStream jsstring
  | StreamWrite buffer
  | StreamEnd
  | CreateReadStream jsstring
  | Readdir jsstring
  | ExecCmd jsstring
  | ConnEnd

text \<open>
  The first argument of the \<open>close\<close> listener of a command stream: the exit status,
  \<open>null\<close> when the command was ended by a signal, or nothing at all when the channel
  closes without an exit status. A template literal prints it as the number, \<open>null\<close>
  or \<open>undefined\<close>.
\<close>

datatype exitCode = Exit int | ExitNull | ExitUndefined

fun codeToString :: "exitCode \<Rightarrow> jsstring" where
  "codeToString (Exit i) = numToString i"
| "codeToString ExitNull = js ''null''"
| "codeToString ExitUndefined = js ''undefined''"

text \<open>
  What the library delivers to the listeners and callbacks the code registers. An error is
  carried as its \<open>message\<close>; \<open>None\<close> in a callback means \<open>err\<close> is not set.
\<close>

datatype event =
  Ready
  | ConnError jsstring
  | SftpCallback "jsstring option"
  | WriteClose
  | ReadData buffer
  | ReadEnd
  | ReaddirCallback "jsstring + entry list"
  | ExecCallback "jsstring option"
  | StdoutData buffer
  | StderrData buffer
  | StreamClose exitCode

text \<open>
  The promise (\<open>None\<close> while pending) and the effects so far. A promise settles once:
  a later \<open>resolve\<close> or \<open>reject\<close> changes nothing.
\<close>

record task =
  promise :: "(jsError + jsValue) option"
  effects :: "effect list"

definition resolve :: "jsValue \<Rightarrow> 'a task_scheme \<Rightarrow> 'a task_scheme" where
  "resolve v s = (if promise s = None then s\<lparr>promise := Some (Inr v)\<rparr> else s)"

definition reject :: "jsError \<Rightarrow> 'a task_scheme \<Rightarrow> 'a task_scheme" where
  "reject e s = (if promise s = None then s\<lparr>promise := Some (Inl e)\<rparr> else s)"

definition call :: "effect \<Rightarrow> 'a task_scheme \<Rightarrow> 'a task_scheme" where
  "call c s = s\<lparr>effects := effects s @ [c]\<rparr>"

subsection \<open>execSftpCommand\<close>

text \<open>The \<open>action\<close> string with its arguments.\<close>

datatype sftp_action =
  Upload buffer jsstring
  | Download jsstring
  | ListDir jsstring
  | OtherAction jsstring

text \<open>
  Besides the promise, the state holds which callbacks and listeners are registered (the
  handlers of \<open>ready\<close> and \<open>error\<close> always are) and the \<open>data\<close> buffer of a download.
  The callbacks of \<open>conn.sftp\<close> and \<open>sftp.readdir\<close> are called once per request.
\<close>

record sftp_state = task +
  sftp_requested :: bool
  on_write_close :: bool
  on_read :: bool
  readdir_requested :: bool
  data :: buffer

definition formatEntry :: "entry \<Rightarrow> jsstring" where
  "formatEntry item = filename item @ js '' ('' @ longname item @ js '')''"

fun sftp_callback :: "sftp_action \<Rightarrow> sftp_state \<Rightarrow> sftp_state" where
  "sftp_callback (Upload fileData remotePath) s =
     (call StreamEnd (call (StreamWrite fileData) (call (CreateWriteStream remotePath) s)))
       \<lparr>on_write_close := True\<rparr>"
| "sftp_callback (Download remotePath) s =
     (call (CreateReadStream remotePath) s)\<lparr>data := [], on_read := True\<rparr>"
| "sftp_callback (ListDir remotePath) s =
     (call (Readdir remotePath) s)\<lparr>readdir_requested := True\<rparr>"
| "sftp_callback (OtherAction a) s =
     call ConnEnd (reject (McpError InternalError (js ''Invalid SFTP action'')) s)"

fun sftp_on :: "sftp_action \<Rightarrow> sftp_state \<Rightarrow> event \<Rightarrow> sftp_state" where
  "sftp_on a s Ready = (call SftpOpen s)\<lparr>sftp_requested := True\<rparr>"
| "sftp_on a s (ConnError m) =
     reject (McpError InternalError (js ''SFTP connection error: '' @ m)) s"
| "sftp_on a s (SftpCallback err) =
     (if \<not> sftp_requested s then s
      else case err of
             Some m \<Rightarrow>
               call ConnEnd (reject (McpError InternalError (js ''SFTP error: '' @ m))
                 (s\<lparr>sftp_requested := False\<rparr>))
           | None \<Rightarrow> sftp_callback a (s\<lparr>sftp_requested := False\<rparr>))"
| "sftp_on a s WriteClose =
     (if \<not> on_write_close s then s
      else case a of
             Upload fileData remotePath \<Rightarrow>
               call ConnEnd (resolve (VContent (js ''File uploaded to '' @ remotePath)) s)
           | _ \<Rightarrow> s)"
| "sftp_on a s (ReadData chunk) = (if on_read s then s\<lparr>data := data s @ chunk\<rparr> else s)"
| "sftp_on a s ReadEnd = (if on_read s then call ConnEnd (resolve (VBuffer (data s)) s) else s)"
| "sftp_on a s (ReaddirCallback r) =
     (if \<not> readdir_requested s then s
      else case r of
             Inl m \<Rightarrow>
               call ConnEnd (reject (McpError InternalError (js ''List error: '' @ m))
                 (s\<lparr>readdir_requested := False\<rparr>))
           | Inr list \<Rightarrow>
               call ConnEnd (resolve (VContent (join (js ''\<newline>'') (map formatEntry list)))
                 (s\<lparr>readdir_requested := False\<rparr>)))"
| "sftp_on a s _ = s"

text \<open>
  The caller awaits the promise: it resumes after the handler that settles the promise has
  run to its end. \<open>sftp_run\<close> gives the state at that moment, which is what the caller
  goes on with: the events are handled up to the one that settles the promise. A trace
  that never settles the promise leaves it pending, and the caller never resumes. The
  listeners stay registered after that moment; \<open>sftp_lifetime\<close> below handles the
  whole trace. \<open>conn.connect\<close> is taken to return: a call that throws at once (a port
  out of range, a key that does not parse) is not part of the model.
\<close>

fun sftp_run :: "sftp_action \<Rightarrow> sftp_state \<Rightarrow> event list \<Rightarrow> sftp_state" where
  "sftp_run a s [] = s"
| "sftp_run a s (e # es) = (if promise s = None then sftp_run a (sftp_on a s e) es else s)"

definition execSftpCommand :: "sshConfig \<Rightarrow> sftp_action \<Rightarrow> event list \<Rightarrow> sftp_state" where
  "execSftpCommand cfg a tr =
     sftp_run a
       \<lparr> promise = None, effects = [Connect cfg], sftp_requested = False,
         on_write_close = False, on_read = False, readdir_requested = False, data = [] \<rparr> tr"

text \<open>
  The connection over everything the library delivers to it: every event of the trace is
  handled, also those that come after the promise has settled.
\<close>

definition sftp_lifetime :: "sshConfig \<Rightarrow> sftp_action \<Rightarrow> event list \<Rightarrow> sftp_state" where
  "sftp_lifetime cfg a tr =
     foldl (sftp_on a)
       \<lparr> promise = None, effects = [Connect cfg], sftp_requested = False,
         on_write_close = False, on_read = False, readdir_requested = False, data = [] \<rparr> tr"

subsection \<open>execSshCommand\<close>

text \<open>
  \<open>toString\<close> is \<open>Buffer.prototype.toString\<close>. The handlers take it as a parameter;
  the decoder of the runtime is \<open>utf8Decode\<close>, and what is proved about the text of a
  command's output is proved for it.
\<close>

record exec_state = task +
  exec_requested :: bool
  on_stream :: bool
  stdout :: jsstring
  stderr :: jsstring

fun exec_on :: "(buffer \<Rightarrow> jsstring) \<Rightarrow> jsstring \<Rightarrow> exec_state \<Rightarrow> event \<Rightarrow> exec_state" where
  "exec_on toString command s Ready = (call (ExecCmd command) s)\<lparr>exec_requested := True\<rparr>"
| "exec_on toString command s (ConnError m) =
     reject (McpError InternalError (js ''SSH connection error: '' @ m)) s"
| "exec_on toString command s (ExecCallback err) =
     (if \<not> exec_requested s then s
      else case err of
             Some m \<Rightarrow>
               call ConnEnd (reject (McpError InternalError (js ''SSH exec error: '' @ m))
                 (s\<lparr>exec_requested := False\<rparr>))
           | None \<Rightarrow> s\<lparr>exec_requested := False, on_stream := True, stdout := [], stderr := []\<rparr>)"
| "exec_on toString command s (StreamClose code) =
     (if \<not> on_stream s then s
      else if stderr s \<noteq> []
           then reject (McpError InternalError
                  (js ''Error (code '' @ codeToString code @ js ''):\<newline>'' @ stderr s))
                  (call ConnEnd s)
           else resolve (VContent (stdout s)) (call ConnEnd s))"
| "exec_on toString command s (StdoutData d) =
     (if on_stream s then s\<lparr>stdout := stdout s @ toString d\<rparr> else s)"
| "exec_on toString command s (StderrData d) =
     (if on_stream s then s\<lparr>stderr := stderr s @ toString d\<rparr> else s)"
| "exec_on toString command s _ = s"

fun exec_run :: "(buffer \<Rightarrow> jsstring) \<Rightarrow> jsstring \<Rightarrow> exec_state \<Rightarrow> event list \<Rightarrow> exec_state" where
  "exec_run toString command s [] = s"
| "exec_run toString command s (e # es) =
     (if promise s = None then exec_run toString command (exec_on toString command s e) es else s)"

definition execSshCommand ::
  "(buffer \<Rightarrow> jsstring) \<Rightarrow> sshConfig \<Rightarrow> jsstring \<Rightarrow> event list \<Rightarrow> exec_state" where
  "execSshCommand toString cfg command tr =
     exec_run toString command
       \<lparr> promise = None, effects = [Connect cfg], exec_requested = False, on_stream = False,
         stdout = [], stderr = [] \<rparr> tr"

text \<open>
  \<open>exec_run\<close> stops where the caller resumes, as \<open>sftp_run\<close> does; \<open>exec_lifetime\<close>
  handles the whole trace.
\<close>

definition exec_lifetime ::
  "(buffer \<Rightarrow> jsstring) \<Rightarrow> sshConfig \<Rightarrow> jsstring \<Rightarrow> event list \<Rightarrow> exec_state" where
  "exec_lifetime toString cfg command tr =
     foldl (exec_on toString command)
       \<lparr> promise = None, effects = [Connect cfg], exec_requested = False, on_stream = False,
         stdout = [], stderr = [] \<rparr> tr"

section \<open>The tools\<close>

text \<open>
  The local file system as the tools see it: what reading each path gives, and the error,
  if any, that writing a path raises. A write that succeeds replaces the content.
\<close>

record world =
  files :: "jsstring \<Rightarrow> jsError + buffer"
  write_error :: "jsstring \<Rightarrow> jsError option"

text \<open>
  Every tool builds \<open>sshConfig\<close> by the same lines: the password when \<open>PASSWORD\<close> is
  truthy, otherwise the content of the file \<open>KEY\<close> (read as UTF-8) when \<open>KEY\<close> is
  truthy. The result comes with the file reads made.
\<close>

definition buildSshConfig ::
  "(buffer \<Rightarrow> jsstring) \<Rightarrow> settings \<Rightarrow> world \<Rightarrow> (jsError + sshConfig) \<times> effect list" where
  "buildSshConfig toString G w =
     (let sshConfig = \<lparr> host = HOST G, port = PORT G, username = USER G,
                         password = None, privateKey = None \<rparr>
      in if truthy (PASSWORD G) then (Inr (sshConfig\<lparr>password := PASSWORD G\<rparr>), [])
         else if truthy (KEY G) then
           (case files w (the (KEY G)) of
              Inl e \<Rightarrow> (Inl e, [ReadFile (the (KEY G))])
            | Inr b \<Rightarrow> (Inr (sshConfig\<lparr>privateKey := Some (toString b)\<rparr>), [ReadFile (the (KEY G))]))
         else (Inr sshConfig, []))"

text \<open>
  What a tool call comes to: \<open>None\<close> when the awaited promise never settles, otherwise
  the thrown error or the returned value.
\<close>

type_synonym 'a outcome = "(jsError + 'a) option"

definition sftp_upload ::
  "(buffer \<Rightarrow> jsstring) \<Rightarrow> settings \<Rightarrow> world \<Rightarrow> event list \<Rightarrow> jsstring \<Rightarrow> jsstring
     \<Rightarrow> jsstring outcome \<times> effect list" where
  "sftp_upload toString G w tr localPath remotePath =
     (case files w localPath of
        Inl e \<Rightarrow> (Some (Inl (rethrow (js ''Upload failed: '') e)), [ReadFile localPath])
      | Inr fileData \<Rightarrow>
          (case buildSshConfig toString G w of
             (Inl e, fx) \<Rightarrow> (Some (Inl (rethrow (js ''Upload failed: '') e)), ReadFile localPath # fx)
           | (Inr sshConfig, fx) \<Rightarrow>
               (let s = execSftpCommand sshConfig (Upload fileData remotePath) tr
                in ((case promise s of
                       None \<Rightarrow> None
                     | Some (Inl e) \<Rightarrow> Some (Inl (rethrow (js ''Upload failed: '') e))
                     | Some (Inr v) \<Rightarrow> Some (Inr (js ''File uploaded to '' @ remotePath))),
                    ReadFile localPath # fx @ effects s))))"

text \<open>
  The message of the download tool for a result that is not a \<open>Buffer\<close>; \<open>typeof\<close> of the
  content object is \<open>object\<close>.
\<close>

definition notBufferMessage :: jsstring where
  "notBufferMessage =
     js ''Download failed: '' @ [0x671F, 0x671B, 0x7ED3, 0x679C, 0x4E3A] @ js '' Buffer ''
     @ [0x7C7B, 0x578B, 0xFF0C, 0x4F46, 0x5F97, 0x5230] @ js '' object''"

definition sftp_download ::
  "(buffer \<Rightarrow> jsstring) \<Rightarrow> settings \<Rightarrow> world \<Rightarrow> event list \<Rightarrow> jsstring \<Rightarrow> jsstring
     \<Rightarrow> jsstring outcome \<times> effect list \<times> world" where
  "sftp_download toString G w tr remotePath localPath =
     (case buildSshConfig toString G w of
        (Inl e, fx) \<Rightarrow> (Some (Inl (rethrow (js ''Download failed: '') e)), fx, w)
      | (Inr sshConfig, fx) \<Rightarrow>
          (let s = execSftpCommand sshConfig (Download remotePath) tr
           in case promise s of
                None \<Rightarrow> (None, fx @ effects s, w)
              | Some (Inl e) \<Rightarrow> (Some (Inl (rethrow (js ''Download failed: '') e)), fx @ effects s, w)
              | Some (Inr (VContent t)) \<Rightarrow>
                  (Some (Inl (McpError InternalError notBufferMessage)), fx @ effects s, w)
              | Some (Inr (VBuffer result)) \<Rightarrow>
                  (case write_error w localPath of
                     Some e \<Rightarrow>
                       (Some (Inl (rethrow (js ''Download failed: '') e)),
                        fx @ effects s @ [WriteFile localPath result], w)
                   | None \<Rightarrow>
                       (Some (Inr (js ''File downloaded to '' @ localPath)),
                        fx @ effects s @ [WriteFile localPath result],
                        w\<lparr>files := (files w)(localPath := Inr result)\<rparr>))))"

text \<open>
  \<open>list.map(item => ...).join('\n')\<close> in the list tool, on the value the promise resolved
  with. The content object has no \<open>map\<close>, so the call throws a \<open>TypeError\<close>. A
  \<open>Buffer\<close> is a typed array: its \<open>map\<close> stores each produced string as the byte 0.
\<close>

fun listText :: "jsValue \<Rightarrow> jsError + jsstring" where
  "listText (VContent t) = Inl (JsError (js ''TypeError'') (js ''list.map is not a function''))"
| "listText (VBuffer b) = Inr (join (js ''\<newline>'') (map (\<lambda>x. js ''0'') b))"

definition sftp_list ::
  "(buffer \<Rightarrow> jsstring) \<Rightarrow> settings \<Rightarrow> world \<Rightarrow> event list \<Rightarrow> jsstring
     \<Rightarrow> jsstring outcome \<times> effect list" where
  "sftp_list toString G w tr remotePath =
     (case buildSshConfig toString G w of
        (Inl e, fx) \<Rightarrow> (Some (Inl (rethrow (js ''List failed: '') e)), fx)
      | (Inr sshConfig, fx) \<Rightarrow>
          (let s = execSftpCommand sshConfig (ListDir remotePath) tr
           in ((case promise s of
                  None \<Rightarrow> None
                | Some (Inl e) \<Rightarrow> Some (Inl (rethrow (js ''List failed: '') e))
                | Some (Inr list) \<Rightarrow>
                    (case listText list of
                       Inl e \<Rightarrow> Some (Inl (rethrow (js ''List failed: '') e))
                     | Inr text \<Rightarrow> Some (Inr text))),
               fx @ effects s)))"

text \<open>The \<open>exec\<close> tool: the command is checked before anything else is done.\<close>

definition exec_tool ::
  "(buffer \<Rightarrow> jsstring) \<Rightarrow> settings \<Rightarrow> world \<Rightarrow> event list \<Rightarrow> jsstring
     \<Rightarrow> jsValue outcome \<times> effect list" where
  "exec_tool toString G w tr command =
     (if trim command = []
      then (Some (Inl (McpError InternalError (js ''Command must be a non-empty string.''))), [])
      else case buildSshConfig toString G w of
             (Inl e, fx) \<Rightarrow> (Some (Inl (rethrow (js ''Unexpected error: '') e)), fx)
           | (Inr sshConfig, fx) \<Rightarrow>
               (let s = execSshCommand toString sshConfig command tr
                in ((case promise s of
                       None \<Rightarrow> None
                     | Some (Inl e) \<Rightarrow> Some (Inl (rethrow (js ''Unexpected error: '') e))
                     | Some (Inr result) \<Rightarrow> Some (Inr result)),
                    fx @ effects s)))"

section \<open>Reading a trace\<close>

text \<open>The event handled by the \<open>error\<close> listener of the connection.\<close>

fun isConnError :: "event \<Rightarrow> bool" where
  "isConnError (ConnError m) = True"
| "isConnError _ = False"




text \<open>
  The listener or callback an event goes to. The library calls a callback once per request
  and emits \<open>ready\<close>, the \<open>close\<close> of a stream and the \<open>end\<close> of a read stream once:
  \<open>deliveredOnce\<close> says so of a trace. Errors and data may come any number of times.
\<close>

datatype delivery =
  ToReady | ToError | ToSftpCallback | ToWriteClose | ToReadData | ToReadEnd
  | ToReaddirCallback | ToExecCallback | ToStdout | ToStderr | ToStreamClose

fun target :: "event \<Rightarrow> delivery" where
  "target Ready = ToReady"
| "target (ConnError m) = ToError"
| "target (SftpCallback err) = ToSftpCallback"
| "target WriteClose = ToWriteClose"
| "target (ReadData chunk) = ToReadData"
| "target ReadEnd = ToReadEnd"
| "target (ReaddirCallback r) = ToReaddirCallback"
| "target (ExecCallback err) = ToExecCallback"
| "target (StdoutData d) = ToStdout"
| "target (StderrData d) = ToStderr"
| "target (StreamClose code) = ToStreamClose"

definition deliveries :: "delivery \<Rightarrow> event list \<Rightarrow> nat" where
  "deliveries k tr = length (filter (\<lambda>e. target e = k) tr)"

definition deliveredOnce :: "event list \<Rightarrow> bool" where
  "deliveredOnce tr =
     list_all (\<lambda>k. deliveries k tr \<le> 1)
       [ToReady, ToSftpCallback, ToWriteClose, ToReadEnd, ToReaddirCallback, ToExecCallback,
        ToStreamClose]"

text \<open>How often the code has called \<open>conn.end()\<close>.\<close>

definition ends :: "effect list \<Rightarrow> nat" where
  "ends fx = length (filter (\<lambda>c. c = ConnEnd) fx)"

subsection \<open>Sample inputs\<close>

text \<open>
  A decoder for buffers of ASCII bytes, a configuration with a password and a key file, and a
  file system with one local file and the key file.
\<close>

definition asciiText :: "buffer \<Rightarrow> jsstring" where
  "asciiText b = map ucast b"

definition sample_settings :: "jsstring option \<Rightarrow> jsstring option \<Rightarrow> settings" where
  "sample_settings pw key =
     \<lparr> HOST = Some (js ''example.org''), PORT = Num 22, USER = Some (js ''root''),
       PASSWORD = pw, KEY = key \<rparr>"

definition sample_world :: world where
  "sample_world =
     \<lparr> files = (\<lambda>p. if p = js ''/home/u/a.txt'' then Inr [0x68, 0x69]
                     else if p = js ''/home/u/id'' then Inr [0x6B, 0x65, 0x79]
                     else Inl (JsError (js ''Error'') (js ''ENOENT: no such file or directory''))),
       write_error = (\<lambda>p. None) \<rparr>"

definition sample_config :: sshConfig where
  "sample_config =
     \<lparr> host = Some (js ''example.org''), port = Num 22, username = Some (js ''root''),
       password = Some (js ''secret''), privateKey = None \<rparr>"

section \<open>Properties of the run of a connection\<close>

lemma call_simps [simp]:
  "promise (call c s) = promise s" "effects (call c s) = effects s @ [c]"
  by (simp_all add: call_def)

lemma resolve_simps [simp]:
  "effects (resolve v s) = effects s"
  "promise (resolve v s) = (if promise s = None then Some (Inr v) else promise s)"
  by (simp_all add: resolve_def)

lemma reject_simps [simp]:
  "effects (reject e s) = effects s"
  "promise (reject e s) = (if promise s = None then Some (Inl e) else promise s)"
  by (simp_all add: reject_def)

lemma sftp_run_settled: "promise s \<noteq> None \<Longrightarrow> sftp_run a s tr = s"
  by (cases tr) auto

lemma exec_run_settled: "promise s \<noteq> None \<Longrightarrow> exec_run t c s tr = s"
  by (cases tr) auto

lemma sftp_run_pending_start: "promise (sftp_run a s tr) = None \<Longrightarrow> promise s = None"
  by (cases "promise s") (auto simp: sftp_run_settled)

lemma exec_run_pending_start: "promise (exec_run t c s tr) = None \<Longrightarrow> promise s = None"
  by (cases "promise s") (auto simp: exec_run_settled)

lemma sftp_run_snoc:
  "sftp_run a s (tr @ e # rest) =
     (if promise (sftp_run a s tr) = None then sftp_run a (sftp_on a (sftp_run a s tr) e) rest
      else sftp_run a s tr)"
proof (induction tr arbitrary: s)
  case Nil
  then show ?case by simp
next
  case (Cons x xs)
  then show ?case by (auto simp: sftp_run_settled)
qed

lemma exec_run_snoc:
  "exec_run t c s (tr @ e # rest) =
     (if promise (exec_run t c s tr) = None then exec_run t c (exec_on t c (exec_run t c s tr) e) rest
      else exec_run t c s tr)"
proof (induction tr arbitrary: s)
  case Nil
  then show ?case by simp
next
  case (Cons x xs)
  then show ?case by (auto simp: exec_run_settled)
qed




lemma ends_append [simp]: "ends (xs @ ys) = ends xs + ends ys"
  by (simp add: ends_def)

lemma ends_Nil [simp]: "ends [] = 0"
  by (simp add: ends_def)

lemma ends_Cons [simp]: "ends (c # fx) = (if c = ConnEnd then 1 else 0) + ends fx"
  by (simp add: ends_def)

lemma sftp_on_pending:
  "promise (sftp_on a s e) = None \<Longrightarrow> ends (effects (sftp_on a s e)) = ends (effects s)"
  by (cases e; cases a) (auto split: option.splits sum.splits if_splits)

lemma sftp_on_settles:
  "promise s = None \<Longrightarrow> promise (sftp_on a s e) \<noteq> None \<Longrightarrow>
     ends (effects (sftp_on a s e)) = ends (effects s) + (if isConnError e then 0 else 1)"
  by (cases e; cases a) (auto split: option.splits sum.splits if_splits)

lemma sftp_run_pending:
  "promise (sftp_run a s tr) = None \<Longrightarrow> ends (effects (sftp_run a s tr)) = ends (effects s)"
proof (induction tr arbitrary: s)
  case Nil
  then show ?case by simp
next
  case (Cons e tr)
  show ?case
  proof (cases "promise s = None")
    case True
    with Cons.prems have r: "promise (sftp_run a (sftp_on a s e) tr) = None" by simp
    then have "promise (sftp_on a s e) = None"
      by (rule sftp_run_pending_start)
    with r True Cons.IH[OF r] show ?thesis by (simp add: sftp_on_pending)
  next
    case False
    then show ?thesis by auto
  qed
qed

lemma exec_on_pending:
  "promise (exec_on t c s e) = None \<Longrightarrow> ends (effects (exec_on t c s e)) = ends (effects s)"
  by (cases e) (auto split: option.splits sum.splits if_splits)

lemma exec_on_settles:
  "promise s = None \<Longrightarrow> promise (exec_on t c s e) \<noteq> None \<Longrightarrow>
     ends (effects (exec_on t c s e)) = ends (effects s) + (if isConnError e then 0 else 1)"
  by (cases e) (auto split: option.splits sum.splits if_splits)

lemma exec_run_pending:
  "promise (exec_run t c s tr) = None \<Longrightarrow> ends (effects (exec_run t c s tr)) = ends (effects s)"
proof (induction tr arbitrary: s)
  case Nil
  then show ?case by simp
next
  case (Cons e tr)
  show ?case
  proof (cases "promise s = None")
    case True
    with Cons.prems have r: "promise (exec_run t c (exec_on t c s e) tr) = None" by simp
    then have "promise (exec_on t c s e) = None"
      by (rule exec_run_pending_start)
    with r True Cons.IH[OF r] show ?thesis by (simp add: exec_on_pending)
  next
    case False
    then show ?thesis by auto
  qed
qed

lemma sftp_settle_ends:
  assumes "promise (execSftpCommand cfg a tr) = None"
    and "promise (execSftpCommand cfg a (tr @ [e])) \<noteq> None"
  shows "ends (effects (execSftpCommand cfg a (tr @ e # rest))) = (if isConnError e then 0 else 1)"
proof -
  let ?init = "\<lparr> promise = None, effects = [Connect cfg], sftp_requested = False,
         on_write_close = False, on_read = False, readdir_requested = False, data = [] \<rparr>"
  let ?s = "sftp_run a ?init tr"
  have p: "promise ?s = None" using assms(1) by (simp add: execSftpCommand_def)
  have e0: "ends (effects ?s) = 0" using sftp_run_pending[OF p] by simp
  have q: "promise (sftp_on a ?s e) \<noteq> None"
    using assms(2) p sftp_run_snoc[of a ?init tr e "[]"] by (simp add: execSftpCommand_def)
  have "execSftpCommand cfg a (tr @ e # rest) = sftp_on a ?s e"
    using p q sftp_run_snoc[of a ?init tr e rest] by (simp add: execSftpCommand_def sftp_run_settled)
  then show ?thesis using sftp_on_settles[OF p q] e0 by simp
qed

lemma sftp_on_effects:
  "x \<in> set (effects (sftp_on a s e)) \<Longrightarrow>
     x \<in> set (effects s) \<or> (\<forall>c. x \<noteq> Connect c) \<and> (\<forall>p. x \<noteq> ReadFile p) \<and> (\<forall>p d. x \<noteq> WriteFile p d)
        \<and> (\<forall>b. x = StreamWrite b \<longrightarrow> (\<exists>r. a = Upload b r))"
  by (cases e; cases a) (auto split: option.splits sum.splits if_splits)

lemma sftp_run_effects:
  "x \<in> set (effects (sftp_run a s tr)) \<Longrightarrow>
     x \<in> set (effects s) \<or> (\<forall>c. x \<noteq> Connect c) \<and> (\<forall>p. x \<noteq> ReadFile p) \<and> (\<forall>p d. x \<noteq> WriteFile p d)
        \<and> (\<forall>b. x = StreamWrite b \<longrightarrow> (\<exists>r. a = Upload b r))"
proof (induction tr arbitrary: s)
  case Nil
  then show ?case by simp
next
  case (Cons e tr)
  show ?case
  proof (cases "promise s = None")
    case True
    with Cons.prems have "x \<in> set (effects (sftp_run a (sftp_on a s e) tr))" by simp
    from Cons.IH[OF this] sftp_on_effects[of x a s e] show ?thesis by blast
  next
    case False
    with Cons.prems show ?thesis by auto
  qed
qed

lemma exec_on_effects:
  "x \<in> set (effects (exec_on t c s e)) \<Longrightarrow>
     x \<in> set (effects s) \<or> (\<forall>c. x \<noteq> Connect c) \<and> (\<forall>p. x \<noteq> ReadFile p) \<and> (\<forall>p d. x \<noteq> WriteFile p d)"
  by (cases e) (auto split: option.splits sum.splits if_splits)

lemma exec_run_effects:
  "x \<in> set (effects (exec_run t c s tr)) \<Longrightarrow>
     x \<in> set (effects s) \<or> (\<forall>c. x \<noteq> Connect c) \<and> (\<forall>p. x \<noteq> ReadFile p) \<and> (\<forall>p d. x \<noteq> WriteFile p d)"
proof (induction tr arbitrary: s)
  case Nil
  then show ?case by simp
next
  case (Cons e tr)
  show ?case
  proof (cases "promise s = None")
    case True
    with Cons.prems have "x \<in> set (effects (exec_run t c (exec_on t c s e) tr))" by simp
    from Cons.IH[OF this] exec_on_effects[of x t c s e] show ?thesis by blast
  next
    case False
    with Cons.prems show ?thesis by auto
  qed
qed

lemma execSftpCommand_effects:
  "x \<in> set (effects (execSftpCommand cfg a tr)) \<Longrightarrow>
     x = Connect cfg \<or> (\<forall>c. x \<noteq> Connect c) \<and> (\<forall>p. x \<noteq> ReadFile p) \<and> (\<forall>p d. x \<noteq> WriteFile p d)
        \<and> (\<forall>b. x = StreamWrite b \<longrightarrow> (\<exists>r. a = Upload b r))"
  unfolding execSftpCommand_def by (drule sftp_run_effects) simp

lemma execSshCommand_effects:
  "x \<in> set (effects (execSshCommand t cfg c tr)) \<Longrightarrow>
     x = Connect cfg \<or> (\<forall>c. x \<noteq> Connect c) \<and> (\<forall>p. x \<noteq> ReadFile p) \<and> (\<forall>p d. x \<noteq> WriteFile p d)"
  unfolding execSshCommand_def by (drule exec_run_effects) simp

lemma buildSshConfig_effects:
  "buildSshConfig t G w = (r, fx) \<Longrightarrow> x \<in> set fx \<Longrightarrow> x = ReadFile (the (KEY G))"
  by (auto simp: buildSshConfig_def Let_def split: if_splits sum.splits)

lemma buildSshConfig_auth:
  assumes "buildSshConfig toString G w = (Inr cfg, fx)"
  shows "\<not> (password cfg \<noteq> None \<and> privateKey cfg \<noteq> None)
     \<and> (truthy (PASSWORD G) \<longrightarrow> password cfg = PASSWORD G \<and> privateKey cfg = None)
     \<and> (\<not> truthy (PASSWORD G) \<and> truthy (KEY G) \<longrightarrow>
          password cfg = None \<and> (\<exists>b. files w (the (KEY G)) = Inr b \<and> privateKey cfg = Some (toString b)))
     \<and> (truthy (PASSWORD G) \<or> truthy (KEY G) \<longrightarrow> (password cfg = None) \<noteq> (privateKey cfg = None))
     \<and> (\<not> truthy (PASSWORD G) \<and> \<not> truthy (KEY G) \<longrightarrow> password cfg = None \<and> privateKey cfg = None)"
  using assms
  by (cases "PASSWORD G") (auto simp: buildSshConfig_def Let_def split: if_splits sum.splits)

lemma upload_connect:
  "Connect c \<in> set (snd (sftp_upload t G w tr lp rp)) \<Longrightarrow> \<exists>fx. buildSshConfig t G w = (Inr c, fx)"
  by (auto simp: sftp_upload_def Let_def split: sum.splits prod.splits dest: buildSshConfig_effects execSftpCommand_effects)

lemma download_connect:
  "Connect c \<in> set (fst (snd (sftp_download t G w tr rp lp))) \<Longrightarrow> \<exists>fx. buildSshConfig t G w = (Inr c, fx)"
  by (auto simp: sftp_download_def Let_def split: sum.splits prod.splits option.splits jsValue.splits
           dest: buildSshConfig_effects execSftpCommand_effects)

lemma list_connect:
  "Connect c \<in> set (snd (sftp_list t G w tr rp)) \<Longrightarrow> \<exists>fx. buildSshConfig t G w = (Inr c, fx)"
  by (auto simp: sftp_list_def Let_def split: sum.splits prod.splits dest: buildSshConfig_effects execSftpCommand_effects)

lemma exec_connect:
  "Connect c \<in> set (snd (exec_tool t G w tr cmd)) \<Longrightarrow> \<exists>fx. buildSshConfig t G w = (Inr c, fx)"
  by (auto simp: exec_tool_def Let_def split: sum.splits prod.splits if_splits dest: buildSshConfig_effects execSshCommand_effects)

lemma download_step:
  "promise s = None \<Longrightarrow> \<not> readdir_requested s \<Longrightarrow> e \<noteq> ReadEnd \<Longrightarrow>
     (promise (sftp_on (Download p) s e) = None \<or> (\<exists>err. promise (sftp_on (Download p) s e) = Some (Inl err)))
     \<and> \<not> readdir_requested (sftp_on (Download p) s e)"
  by (cases e) (auto simp: call_def reject_def resolve_def split: option.splits sum.splits if_splits)

lemma download_resolves_at_end:
  "promise s = None \<Longrightarrow> \<not> readdir_requested s \<Longrightarrow>
     promise (sftp_run (Download p) s tr) = Some (Inr v) \<Longrightarrow> ReadEnd \<in> set tr"
proof (induction tr arbitrary: s)
  case Nil
  then show ?case by simp
next
  case (Cons e tr)
  show ?case
  proof (cases "e = ReadEnd")
    case True
    then show ?thesis by simp
  next
    case False
    from download_step[OF Cons.prems(1,2) False]
    have st: "promise (sftp_on (Download p) s e) = None \<or> (\<exists>err. promise (sftp_on (Download p) s e) = Some (Inl err))"
      and rd: "\<not> readdir_requested (sftp_on (Download p) s e)" by auto
    from Cons.prems have r: "promise (sftp_run (Download p) (sftp_on (Download p) s e) tr) = Some (Inr v)" by simp
    from st show ?thesis
    proof
      assume "promise (sftp_on (Download p) s e) = None"
      from Cons.IH[OF this rd r] show ?thesis by simp
    next
      assume "\<exists>err. promise (sftp_on (Download p) s e) = Some (Inl err)"
      then obtain err where err: "promise (sftp_on (Download p) s e) = Some (Inl err)" ..
      then have "sftp_run (Download p) (sftp_on (Download p) s e) tr = sftp_on (Download p) s e"
        by (simp add: sftp_run_settled)
      with r err show ?thesis by simp
    qed
  qed
qed

lemma sftp_run_data:
  "promise s = None \<Longrightarrow> on_read s \<Longrightarrow>
     sftp_run a s (map ReadData chunks @ rest) = sftp_run a (s\<lparr>data := data s @ concat chunks\<rparr>) rest"
proof (induction chunks arbitrary: s)
  case Nil
  then show ?case by simp
next
  case (Cons c cs)
  then show ?case by simp
qed

lemma exec_settle_ends:
  assumes "promise (execSshCommand t cfg c tr) = None"
    and "promise (execSshCommand t cfg c (tr @ [e])) \<noteq> None"
  shows "ends (effects (execSshCommand t cfg c (tr @ e # rest))) = (if isConnError e then 0 else 1)"
proof -
  let ?init = "\<lparr> promise = None, effects = [Connect cfg], exec_requested = False, on_stream = False,
         stdout = [], stderr = [] \<rparr>"
  let ?s = "exec_run t c ?init tr"
  have p: "promise ?s = None" using assms(1) by (simp add: execSshCommand_def)
  have e0: "ends (effects ?s) = 0" using exec_run_pending[OF p] by simp
  have q: "promise (exec_on t c ?s e) \<noteq> None"
    using assms(2) p exec_run_snoc[of t c ?init tr e "[]"] by (simp add: execSshCommand_def)
  have "execSshCommand t cfg c (tr @ e # rest) = exec_on t c ?s e"
    using p q exec_run_snoc[of t c ?init tr e rest] by (simp add: execSshCommand_def exec_run_settled)
  then show ?thesis using exec_on_settles[OF p q] e0 by simp
qed

lemma sftp_pending_ends:
  "promise (execSftpCommand cfg a tr) = None \<Longrightarrow> ends (effects (execSftpCommand cfg a tr)) = 0"
  unfolding execSftpCommand_def by (drule sftp_run_pending) simp

lemma exec_pending_ends:
  "promise (execSshCommand t cfg c tr) = None \<Longrightarrow> ends (effects (execSshCommand t cfg c tr)) = 0"
  unfolding execSshCommand_def by (drule exec_run_pending) simp

lemma build_no_write: "buildSshConfig t G w = (r, fx) \<Longrightarrow> WriteFile q c \<notin> set fx"
  by (auto dest: buildSshConfig_effects)

lemma sftp_no_write: "WriteFile q c \<notin> set (effects (execSftpCommand cfg a tr))"
  by (auto dest: execSftpCommand_effects)

lemma list_resolves_with_lines:
  "promise (execSftpCommand cfg (ListDir remotePath)
      (Ready # SftpCallback None # ReaddirCallback (Inr list) # rest)) =
     Some (Inr (VContent (join (js ''\<newline>'') (map formatEntry list))))
   \<and> promise (execSftpCommand cfg (ListDir remotePath)
      (Ready # SftpCallback None # ReaddirCallback (Inl m) # rest)) =
     Some (Inl (McpError InternalError (js ''List error: '' @ m)))"
  by (simp add: execSftpCommand_def sftp_run_settled)

lemma list_step:
  "promise s = None \<Longrightarrow> \<not> on_read s \<Longrightarrow>
     (promise (sftp_on (ListDir p) s e) = None \<and> \<not> on_read (sftp_on (ListDir p) s e))
     \<or> (\<exists>err. promise (sftp_on (ListDir p) s e) = Some (Inl err))
     \<or> (\<exists>t. promise (sftp_on (ListDir p) s e) = Some (Inr (VContent t)))"
  by (cases e) (auto simp: call_def reject_def resolve_def split: option.splits sum.splits if_splits)

lemma list_resolves_content:
  "promise s = None \<Longrightarrow> \<not> on_read s \<Longrightarrow>
     promise (sftp_run (ListDir p) s tr) = Some (Inr v) \<Longrightarrow> \<exists>t. v = VContent t"
proof (induction tr arbitrary: s)
  case Nil
  then show ?case by simp
next
  case (Cons e tr)
  from Cons.prems have r: "promise (sftp_run (ListDir p) (sftp_on (ListDir p) s e) tr) = Some (Inr v)"
    by simp
  from list_step[OF Cons.prems(1,2), of p e] show ?case
  proof (elim disjE conjE exE)
    assume "promise (sftp_on (ListDir p) s e) = None" "\<not> on_read (sftp_on (ListDir p) s e)"
    from Cons.IH[OF this r] show ?thesis .
  next
    fix err assume "promise (sftp_on (ListDir p) s e) = Some (Inl err)"
    with r show ?thesis by (simp add: sftp_run_settled)
  next
    fix t assume "promise (sftp_on (ListDir p) s e) = Some (Inr (VContent t))"
    with r show ?thesis by (auto simp: sftp_run_settled)
  qed
qed

lemma sftp_list_never_returns:
  "fst (sftp_list toString G w tr remotePath) \<noteq> Some (Inr text)"
proof -
  have "\<exists>t. v = VContent t"
    if "promise (execSftpCommand cfg (ListDir remotePath) tr) = Some (Inr v)" for cfg v
    using that unfolding execSftpCommand_def by (rule list_resolves_content[rotated 2]) simp_all
  then have "listText v \<noteq> Inr text"
    if "promise (execSftpCommand cfg (ListDir remotePath) tr) = Some (Inr v)" for cfg v
    using that by fastforce
  then show ?thesis
    by (auto simp: sftp_list_def Let_def split: sum.splits prod.splits option.splits)
qed

section \<open>Decoding, exit codes and the whole life of a connection\<close>













lemma sftp_on_kept: "promise s \<noteq> None \<Longrightarrow> promise (sftp_on a s e) = promise s"
  by (cases e; cases a) (auto split: option.splits sum.splits if_splits)

lemma exec_on_kept: "promise s \<noteq> None \<Longrightarrow> promise (exec_on t c s e) = promise s"
  by (cases e) (auto split: option.splits sum.splits if_splits)

lemma sftp_fold_kept: "promise s \<noteq> None \<Longrightarrow> promise (foldl (sftp_on a) s tr) = promise s"
  by (induction tr arbitrary: s) (simp_all add: sftp_on_kept)

lemma exec_fold_kept: "promise s \<noteq> None \<Longrightarrow> promise (foldl (exec_on t c) s tr) = promise s"
  by (induction tr arbitrary: s) (simp_all add: exec_on_kept)

lemma sftp_fold_pending:
  "promise (foldl (sftp_on a) s tr) = None \<Longrightarrow>
     ends (effects (foldl (sftp_on a) s tr)) = ends (effects s) \<and> sftp_run a s tr = foldl (sftp_on a) s tr"
proof (induction tr arbitrary: s)
  case Nil
  then show ?case by simp
next
  case (Cons e tr)
  then have r: "promise (foldl (sftp_on a) (sftp_on a s e) tr) = None" by simp
  then have p: "promise (sftp_on a s e) = None"
    using sftp_fold_kept[of "sftp_on a s e" a tr] by (cases "promise (sftp_on a s e)") auto
  then have q: "promise s = None"
    using sftp_on_kept[of s a e] by (cases "promise s") auto
  from Cons.IH[OF r] p q show ?case by (simp add: sftp_on_pending)
qed

lemma exec_fold_pending:
  "promise (foldl (exec_on t c) s tr) = None \<Longrightarrow>
     ends (effects (foldl (exec_on t c) s tr)) = ends (effects s) \<and> exec_run t c s tr = foldl (exec_on t c) s tr"
proof (induction tr arbitrary: s)
  case Nil
  then show ?case by simp
next
  case (Cons e tr)
  then have r: "promise (foldl (exec_on t c) (exec_on t c s e) tr) = None" by simp
  then have p: "promise (exec_on t c s e) = None"
    using exec_fold_kept[of "exec_on t c s e" t c tr] by (cases "promise (exec_on t c s e)") auto
  then have q: "promise s = None"
    using exec_on_kept[of s t c e] by (cases "promise s") auto
  from Cons.IH[OF r] p q show ?case by (simp add: exec_on_pending)
qed

lemma unguarded_callback:
  "sftp_requested s \<Longrightarrow>
     ends (effects (sftp_on a s (SftpCallback (Some m)))) = Suc (ends (effects s))"
  by simp

lemma unguarded_close:
  "on_stream x \<Longrightarrow>
     ends (effects (exec_on t c x (StreamClose code))) = Suc (ends (effects x))"
  by simp

lemma sftp_resume:
  assumes "promise (sftp_lifetime cfg a tr) = None"
  shows "ends (effects (sftp_lifetime cfg a tr)) = 0"
    and "execSftpCommand cfg a tr = sftp_lifetime cfg a tr"
    and "promise (sftp_lifetime cfg a (tr @ [e])) \<noteq> None \<Longrightarrow>
           ends (effects (sftp_lifetime cfg a (tr @ [e]))) = (if isConnError e then 0 else 1)
           \<and> execSftpCommand cfg a (tr @ e # rest) = sftp_lifetime cfg a (tr @ [e])"
proof -
  let ?init = "\<lparr> promise = None, effects = [Connect cfg], sftp_requested = False,
         on_write_close = False, on_read = False, readdir_requested = False, data = [] \<rparr>"
  let ?s = "foldl (sftp_on a) ?init tr"
  have p: "promise ?s = None" using assms by (simp add: sftp_lifetime_def)
  from sftp_fold_pending[OF p] show e0: "ends (effects (sftp_lifetime cfg a tr)) = 0"
    and run: "execSftpCommand cfg a tr = sftp_lifetime cfg a tr"
    by (simp_all add: sftp_lifetime_def execSftpCommand_def)
  assume "promise (sftp_lifetime cfg a (tr @ [e])) \<noteq> None"
  then have q: "promise (sftp_on a ?s e) \<noteq> None" by (simp add: sftp_lifetime_def)
  have "sftp_run a ?init (tr @ e # rest) = sftp_on a ?s e"
    using p q sftp_fold_pending[OF p] sftp_run_snoc[of a ?init tr e rest] by (simp add: sftp_run_settled)
  then show "ends (effects (sftp_lifetime cfg a (tr @ [e]))) = (if isConnError e then 0 else 1)
           \<and> execSftpCommand cfg a (tr @ e # rest) = sftp_lifetime cfg a (tr @ [e])"
    using sftp_on_settles[OF p q] e0 by (simp add: sftp_lifetime_def execSftpCommand_def)
qed

lemma exec_resume:
  assumes "promise (exec_lifetime t cfg c tr) = None"
  shows "ends (effects (exec_lifetime t cfg c tr)) = 0"
    and "execSshCommand t cfg c tr = exec_lifetime t cfg c tr"
    and "promise (exec_lifetime t cfg c (tr @ [e])) \<noteq> None \<Longrightarrow>
           ends (effects (exec_lifetime t cfg c (tr @ [e]))) = (if isConnError e then 0 else 1)
           \<and> execSshCommand t cfg c (tr @ e # rest) = exec_lifetime t cfg c (tr @ [e])"
proof -
  let ?init = "\<lparr> promise = None, effects = [Connect cfg], exec_requested = False, on_stream = False,
         stdout = [], stderr = [] \<rparr>"
  let ?s = "foldl (exec_on t c) ?init tr"
  have p: "promise ?s = None" using assms by (simp add: exec_lifetime_def)
  from exec_fold_pending[OF p] show e0: "ends (effects (exec_lifetime t cfg c tr)) = 0"
    and run: "execSshCommand t cfg c tr = exec_lifetime t cfg c tr"
    by (simp_all add: exec_lifetime_def execSshCommand_def)
  assume "promise (exec_lifetime t cfg c (tr @ [e])) \<noteq> None"
  then have q: "promise (exec_on t c ?s e) \<noteq> None" by (simp add: exec_lifetime_def)
  have "exec_run t c ?init (tr @ e # rest) = exec_on t c ?s e"
    using p q exec_fold_pending[OF p] exec_run_snoc[of t c ?init tr e rest] by (simp add: exec_run_settled)
  then show "ends (effects (exec_lifetime t cfg c (tr @ [e]))) = (if isConnError e then 0 else 1)
           \<and> execSshCommand t cfg c (tr @ e # rest) = exec_lifetime t cfg c (tr @ [e])"
    using exec_on_settles[OF p q] e0 by (simp add: exec_lifetime_def execSshCommand_def)
qed

lemma deliveries_Nil [simp]: "deliveries k [] = 0"
  by (simp add: deliveries_def)

lemma deliveries_Cons [simp]:
  "deliveries k (e # tr) = (if target e = k then 1 else 0) + deliveries k tr"
  by (simp add: deliveries_def)

lemma deliveries_mem: "e \<in> set tr \<Longrightarrow> 1 \<le> deliveries (target e) tr"
  by (induction tr) auto

lemma exec_fold_ends:
  "ends (effects (foldl (exec_on t c) s tr)) \<le>
     ends (effects s) + length (filter (\<lambda>e. e \<noteq> ExecCallback None \<and> target e = ToExecCallback) tr)
     + (if on_stream s \<or> ExecCallback None \<in> set tr then deliveries ToStreamClose tr else 0)"
proof (induction tr arbitrary: s)
  case Nil
  then show ?case by simp
next
  case (Cons e tr)
  from Cons.IH[of "exec_on t c s e"] show ?case
    by (cases e) (auto simp: call_def reject_def resolve_def split: option.splits if_splits)
qed

lemma callbacks_split:
  "deliveries ToExecCallback tr =
     length (filter (\<lambda>e. e \<noteq> ExecCallback None \<and> target e = ToExecCallback) tr)
     + length (filter (\<lambda>e. e = ExecCallback None) tr)"
  by (induction tr) auto

lemma filter_mem: "e \<in> set tr \<Longrightarrow> 1 \<le> length (filter (\<lambda>x. x = e) tr)"
  by (induction tr) auto

lemma exec_lifetime_ends:
  assumes "deliveredOnce tr"
  shows "ends (effects (exec_lifetime t cfg c tr)) \<le> 1"
proof -
  from assms have a: "deliveries ToExecCallback tr \<le> 1" and b: "deliveries ToStreamClose tr \<le> 1"
    by (simp_all add: deliveredOnce_def)
  let ?err = "length (filter (\<lambda>e. e \<noteq> ExecCallback None \<and> target e = ToExecCallback) tr)"
  have "ends (effects (exec_lifetime t cfg c tr)) \<le>
      ?err + (if ExecCallback None \<in> set tr then deliveries ToStreamClose tr else 0)"
    unfolding exec_lifetime_def
    using exec_fold_ends[of t c "\<lparr> promise = None, effects = [Connect cfg], exec_requested = False,
       on_stream = False, stdout = [], stderr = [] \<rparr>" tr] by simp
  moreover have "ExecCallback None \<in> set tr \<Longrightarrow> ?err = 0"
    using a callbacks_split[of tr] filter_mem[of "ExecCallback None" tr] by linarith
  moreover have "?err \<le> 1" using a callbacks_split[of tr] by linarith
  ultimately show ?thesis using b by (cases "ExecCallback None \<in> set tr") auto
qed

lemma sftp_fold_ends:
  "ends (effects (foldl (sftp_on a) s tr)) \<le>
     ends (effects s)
     + length (filter (\<lambda>e. e \<noteq> SftpCallback None \<and> target e = ToSftpCallback) tr)
     + (if (\<exists>x. a = OtherAction x) then length (filter (\<lambda>e. e = SftpCallback None) tr) else 0)
     + (if on_write_close s \<or> ((\<exists>d r. a = Upload d r) \<and> SftpCallback None \<in> set tr)
        then deliveries ToWriteClose tr else 0)
     + (if on_read s \<or> ((\<exists>r. a = Download r) \<and> SftpCallback None \<in> set tr)
        then deliveries ToReadEnd tr else 0)
     + (if readdir_requested s \<or> ((\<exists>r. a = ListDir r) \<and> SftpCallback None \<in> set tr)
        then deliveries ToReaddirCallback tr else 0)"
proof (induction tr arbitrary: s)
  case Nil
  then show ?case by simp
next
  case (Cons e tr)
  from Cons.IH[of "sftp_on a s e"] show ?case
    by (cases e; cases a)
       (auto simp: call_def reject_def resolve_def split: option.splits sum.splits if_splits)
qed

lemma sftp_callbacks_split:
  "deliveries ToSftpCallback tr =
     length (filter (\<lambda>e. e \<noteq> SftpCallback None \<and> target e = ToSftpCallback) tr)
     + length (filter (\<lambda>e. e = SftpCallback None) tr)"
  by (induction tr) auto

lemma sftp_lifetime_ends:
  assumes "deliveredOnce tr"
  shows "ends (effects (sftp_lifetime cfg a tr)) \<le> 1"
proof -
  from assms have o: "deliveries ToSftpCallback tr \<le> 1" "deliveries ToWriteClose tr \<le> 1"
    "deliveries ToReadEnd tr \<le> 1" "deliveries ToReaddirCallback tr \<le> 1"
    by (simp_all add: deliveredOnce_def)
  let ?err = "length (filter (\<lambda>e. e \<noteq> SftpCallback None \<and> target e = ToSftpCallback) tr)"
  let ?ok = "length (filter (\<lambda>e. e = SftpCallback None) tr)"
  have s: "?err + ?ok \<le> 1" using o(1) sftp_callbacks_split[of tr] by linarith
  have m: "SftpCallback None \<in> set tr \<Longrightarrow> ?err = 0 \<and> ?ok = 1"
    using s filter_mem[of "SftpCallback None" tr] by linarith
  have b: "ends (effects (sftp_lifetime cfg a tr)) \<le>
      ?err + (if (\<exists>x. a = OtherAction x) then ?ok else 0)
      + (if (\<exists>d r. a = Upload d r) \<and> SftpCallback None \<in> set tr then deliveries ToWriteClose tr else 0)
      + (if (\<exists>r. a = Download r) \<and> SftpCallback None \<in> set tr then deliveries ToReadEnd tr else 0)
      + (if (\<exists>r. a = ListDir r) \<and> SftpCallback None \<in> set tr then deliveries ToReaddirCallback tr else 0)"
    unfolding sftp_lifetime_def
    using sftp_fold_ends[of a "\<lparr> promise = None, effects = [Connect cfg], sftp_requested = False,
         on_write_close = False, on_read = False, readdir_requested = False, data = [] \<rparr>" tr]
    by simp
  show ?thesis
  proof (cases "SftpCallback None \<in> set tr")
    case True
    with m have "?err = 0" "?ok = 1" by auto
    with b o True show ?thesis by (cases a) auto
  next
    case False
    then have "?ok = 0" by (induction tr) auto
    with b s False show ?thesis by (cases a) auto
  qed
qed

section \<open>Evaluating the sample inputs\<close>

lemma trim_blank: "\<forall>c\<in>set s. isWhiteSpace c \<Longrightarrow> trim s = []"
proof -
  assume "\<forall>c\<in>set s. isWhiteSpace c"
  then have h: "dropWhile isWhiteSpace s = []" by (induction s) simp_all
  show ?thesis unfolding trim_def h by simp
qed

lemma asciiText_empty: "(asciiText b = []) = (b = [])"
  by (simp add: asciiText_def)

lemma validateConfig_ok:
  "(validateConfig c = Inr ()) =
     (truthy (c (js ''host'')) \<and> truthy (c (js ''user''))
      \<and> \<not> (truthy (c (js ''port'')) \<and> numberIsNaN (the (c (js ''port'')))))"
  by (simp add: validateConfig_def)

lemma startup_Inl: "(\<exists>e. startup argv = Inl e) = (validateConfig (parseArgv argv) \<noteq> Inr ())"
  by (cases "validateConfig (parseArgv argv)") (simp_all add: startup_def)

lemma startup_Inr: "startup argv = Inr G \<Longrightarrow> G = readSettings (parseArgv argv)"
  by (cases "validateConfig (parseArgv argv)") (simp_all add: startup_def)

lemma sample_argv:
  "parseArgv [js ''--host=example.org'', js ''--user=root'', js ''--port=70000''] =
     [js ''host'' \<mapsto> js ''example.org'', js ''user'' \<mapsto> js ''root'', js ''port'' \<mapsto> js ''70000'']"
proof -
  have "matchArg (js ''--port=70000'') = Some (js ''port'', js ''70000'')"
    "matchArg (js ''--host=example.org'') = Some (js ''host'', js ''example.org'')"
    "matchArg (js ''--user=root'') = Some (js ''user'', js ''root'')"
    by (simp_all add: matchArg_def js_def isLineTerminator_def)
  then show ?thesis by (simp add: parseArgv_def)
qed

lemma sample_build_password:
  "buildSshConfig asciiText (sample_settings (Some (js ''secret'')) (Some (js ''/home/u/id''))) sample_world
     = (Inr sample_config, [])"
  by (simp add: buildSshConfig_def sample_settings_def sample_config_def js_def)

lemma sample_build_none:
  "buildSshConfig asciiText (sample_settings None None) sample_world
     = (Inr (sample_config\<lparr>password := None\<rparr>), [])"
  by (simp add: buildSshConfig_def sample_settings_def sample_config_def)

lemma sample_build_key:
  "buildSshConfig asciiText (sample_settings None (Some (js ''/home/u/id''))) sample_world
     = (Inr (sample_config\<lparr>password := None, privateKey := Some (js ''key'')\<rparr>), [ReadFile (js ''/home/u/id'')])"
  by (simp add: buildSshConfig_def sample_settings_def sample_config_def sample_world_def asciiText_def js_def)

section \<open>The claims\<close>




text \<open>
  C2, as amended. For every action of \<open>execSftpCommand\<close> and every command of
  \<open>execSshCommand\<close>, over the whole trace the library delivers: as long as the promise is
  pending after a handler, no \<open>conn.end()\<close> has been made, and the awaiting caller sees
  the connection as it is. When the handler of an event \<open>e\<close> settles the promise, the
  caller resumes with the connection as that handler leaves it, whatever comes later, and
  by then \<open>conn.end()\<close> has been made exactly once if \<open>e\<close> is any event other than the
  connection's \<open>error\<close> (success, SFTP error, listing error, unknown action, command
  error, close of the command stream), and not yet if \<open>e\<close> is the connection's
  \<open>error\<close>: that listener only rejects. The listeners stay registered and do not look
  at the promise: in any state, a failed SFTP callback that is awaited and a \<open>close\<close> of
  an open command stream each make one more \<open>conn.end()\<close>. Over the whole trace
  \<open>conn.end()\<close> is made at most once when the library delivers \<open>ready\<close>, each callback,
  each \<open>close\<close> and \<open>end\<close> at most once.
\<close>

theorem conn_end_once_unless_connection_error:
  "(promise (sftp_lifetime cfg a tr) = None \<longrightarrow>
      ends (effects (sftp_lifetime cfg a tr)) = 0
      \<and> execSftpCommand cfg a tr = sftp_lifetime cfg a tr
      \<and> (promise (sftp_lifetime cfg a (tr @ [e])) \<noteq> None \<longrightarrow>
          ends (effects (sftp_lifetime cfg a (tr @ [e]))) = (if isConnError e then 0 else 1)
          \<and> execSftpCommand cfg a (tr @ e # rest) = sftp_lifetime cfg a (tr @ [e])))
   \<and> (deliveredOnce tr \<longrightarrow> ends (effects (sftp_lifetime cfg a tr)) \<le> 1)
   \<and> (promise (exec_lifetime toString cfg command tr) = None \<longrightarrow>
      ends (effects (exec_lifetime toString cfg command tr)) = 0
      \<and> execSshCommand toString cfg command tr = exec_lifetime toString cfg command tr
      \<and> (promise (exec_lifetime toString cfg command (tr @ [e])) \<noteq> None \<longrightarrow>
          ends (effects (exec_lifetime toString cfg command (tr @ [e]))) = (if isConnError e then 0 else 1)
          \<and> execSshCommand toString cfg command (tr @ e # rest) = exec_lifetime toString cfg command (tr @ [e])))
   \<and> (deliveredOnce tr \<longrightarrow> ends (effects (exec_lifetime toString cfg command tr)) \<le> 1)
   \<and> (sftp_requested s \<longrightarrow>
        ends (effects (sftp_on a s (SftpCallback (Some m)))) = Suc (ends (effects s)))
   \<and> (on_stream x \<longrightarrow>
        ends (effects (exec_on toString command x (StreamClose code))) = Suc (ends (effects x)))"
  using sftp_resume(1)[of cfg a tr] sftp_resume(2)[of cfg a tr] sftp_resume(3)[of cfg a tr e rest]
    exec_resume(1)[of toString cfg command tr] exec_resume(2)[of toString cfg command tr]
    exec_resume(3)[of toString cfg command tr e rest]
    sftp_lifetime_ends[of tr cfg a] exec_lifetime_ends[of tr toString cfg command]
    unguarded_callback[of s a m] unguarded_close[of x toString command code]
  by blast

theorem conn_end_once_unless_connection_error_witness:
  "ends (effects (sftp_lifetime sample_config (ListDir (js ''/tmp''))
       [Ready, SftpCallback None, ReaddirCallback (Inl (js ''No such file''))])) = 1
   \<and> effects (execSftpCommand sample_config (ListDir (js ''/tmp''))
       [Ready, SftpCallback None, ReaddirCallback (Inl (js ''No such file'')), WriteClose]) =
     [Connect sample_config, SftpOpen, Readdir (js ''/tmp''), ConnEnd]
   \<and> deliveredOnce [Ready, ExecCallback None, StdoutData [0x61], StdoutData [0x62], StreamClose (Exit 0)]
   \<and> ends (effects (exec_lifetime asciiText sample_config (js ''ls'')
       [Ready, ExecCallback None, StdoutData [0x61], StdoutData [0x62], StreamClose (Exit 0)])) = 1"
proof -
  let ?p = "ListDir (js ''/tmp'')"
  let ?tr = "[Ready, SftpCallback None]"
  let ?e = "ReaddirCallback (Inl (js ''No such file''))"
  let ?x = "[Ready, ExecCallback None, StdoutData [0x61], StdoutData [0x62]]"
  have a: "promise (sftp_lifetime sample_config ?p ?tr) = None"
    "promise (sftp_lifetime sample_config ?p (?tr @ [?e])) \<noteq> None"
    by (simp_all add: sftp_lifetime_def)
  have l: "effects (sftp_lifetime sample_config ?p (?tr @ [?e])) =
      [Connect sample_config, SftpOpen, Readdir (js ''/tmp''), ConnEnd]"
    by (simp add: sftp_lifetime_def)
  have b: "promise (exec_lifetime asciiText sample_config (js ''ls'') ?x) = None"
    "promise (exec_lifetime asciiText sample_config (js ''ls'') (?x @ [StreamClose (Exit 0)])) \<noteq> None"
    by (simp_all add: exec_lifetime_def)
  have d: "deliveredOnce (?x @ [StreamClose (Exit 0)])"
    by (simp add: deliveredOnce_def deliveries_def)
  from conn_end_once_unless_connection_error[where cfg=sample_config and a="?p" and tr="?tr"
         and e="?e" and rest="[WriteClose]"] a l
  have r1: "ends (effects (sftp_lifetime sample_config ?p (?tr @ [?e]))) = 1"
    and r2: "effects (execSftpCommand sample_config ?p (?tr @ ?e # [WriteClose])) =
        [Connect sample_config, SftpOpen, Readdir (js ''/tmp''), ConnEnd]"
    by simp_all
  from conn_end_once_unless_connection_error[where cfg=sample_config and tr="?x"
         and e="StreamClose (Exit 0)" and toString=asciiText and command="js ''ls''"] b
  have r3: "ends (effects (exec_lifetime asciiText sample_config (js ''ls'') (?x @ [StreamClose (Exit 0)]))) = 1"
    by simp
  from r1 r2 r3 d show ?thesis by simp
qed

text \<open>
  C2 as the spec states it fails: after \<open>ready\<close> (the session is open and the request is
  made) a connection error rejects the promise, and the call returns with no
  \<open>conn.end()\<close> made; for a command, the \<open>exec\<close> tool has thrown before the close of
  the stream, delivered afterwards, makes the one \<open>conn.end()\<close>.
\<close>

theorem conn_end_missing_counterexample:
  "promise (execSftpCommand sample_config (ListDir (js ''/tmp'')) [Ready, ConnError (js ''read ECONNRESET'')])
     = Some (Inl (McpError InternalError (js ''SFTP connection error: read ECONNRESET'')))
   \<and> effects (sftp_lifetime sample_config (ListDir (js ''/tmp'')) [Ready, ConnError (js ''read ECONNRESET'')])
     = [Connect sample_config, SftpOpen]
   \<and> exec_tool asciiText (sample_settings (Some (js ''secret'')) (Some (js ''/home/u/id''))) sample_world
        [Ready, ExecCallback None, StdoutData [0x61], ConnError (js ''read ECONNRESET''), StreamClose ExitUndefined]
        (js ''ls'')
     = (Some (Inl (McpError InternalError (js ''SSH connection error: read ECONNRESET''))),
        [Connect sample_config, ExecCmd (js ''ls'')])
   \<and> effects (exec_lifetime asciiText sample_config (js ''ls'')
        [Ready, ExecCallback None, StdoutData [0x61], ConnError (js ''read ECONNRESET''), StreamClose ExitUndefined])
     = [Connect sample_config, ExecCmd (js ''ls''), ConnEnd]"
proof -
  have t: "trim (js ''ls'') \<noteq> []"
    by (simp add: trim_def js_def isWhiteSpace_def)
  have "exec_tool asciiText (sample_settings (Some (js ''secret'')) (Some (js ''/home/u/id''))) sample_world
        [Ready, ExecCallback None, StdoutData [0x61], ConnError (js ''read ECONNRESET''), StreamClose ExitUndefined]
        (js ''ls'')
     = (Some (Inl (McpError InternalError (js ''SSH connection error: '' @ js ''read ECONNRESET''))),
        [Connect sample_config, ExecCmd (js ''ls'')])"
    using t by (simp add: exec_tool_def sample_build_password execSshCommand_def)
  then show ?thesis
    by (simp add: execSftpCommand_def sftp_lifetime_def exec_lifetime_def js_def
          call_def reject_def resolve_def)
qed

text \<open>
  C3. The \<open>exec\<close> tool rejects a command that is empty or holds only white space with the
  \<open>McpError\<close> \<open>Command must be a non-empty string.\<close> and has done nothing by then: no
  file is read and no connection is opened. The spec's \<open>InvalidArgument\<close> is this
  rejection; its code is \<open>InternalError\<close>, as for every error of the server.
\<close>

theorem exec_blank_command_rejected:
  "\<forall>c\<in>set command. isWhiteSpace c \<Longrightarrow>
     exec_tool toString G w tr command =
       (Some (Inl (McpError InternalError (js ''Command must be a non-empty string.''))), [])"
  by (simp add: exec_tool_def trim_blank)

theorem exec_blank_command_rejected_witness:
  "exec_tool asciiText (sample_settings (Some (js ''secret'')) None) sample_world
     [Ready, ExecCallback None, StreamClose (Exit 0)] [0x20, 0x09, 0x3000, 0x0A] =
       (Some (Inl (McpError InternalError (js ''Command must be a non-empty string.''))), [])"
  using exec_blank_command_rejected
    [of "[0x20, 0x09, 0x3000, 0x0A]" asciiText "sample_settings (Some (js ''secret'')) None"
        sample_world "[Ready, ExecCallback None, StreamClose (Exit 0)]"]
  by (simp add: isWhiteSpace_def)

text \<open>
  C4. A listing that the remote side accepts: \<open>execSftpCommand\<close> resolves with the content
  object whose text holds one line \<open>filename (longname)\<close> per entry, in the order given;
  the \<open>sftp_list\<close> tool, which expects the array of entries, calls \<open>map\<close> on that
  object, and the call ends with \<open>List failed: list.map is not a function\<close>. The run
  below is the code at that input; and on no input at all does the tool return a listing.
\<close>

theorem sftp_list_rejects_accepted_listing:
  "sftp_list asciiText (sample_settings (Some (js ''secret'')) (Some (js ''/home/u/id''))) sample_world
     [Ready, SftpCallback None,
      ReaddirCallback (Inr [\<lparr>filename = js ''b.txt'', longname = js ''-rw-r--r-- 1 u g 2 b.txt''\<rparr>,
                            \<lparr>filename = js ''a'', longname = js ''drwxr-xr-x 2 u g 0 a''\<rparr>])]
     (js ''/srv'') =
     (Some (Inl (McpError InternalError (js ''List failed: list.map is not a function''))),
      [Connect sample_config, SftpOpen, Readdir (js ''/srv''), ConnEnd])
   \<and> promise (execSftpCommand sample_config (ListDir (js ''/srv''))
       [Ready, SftpCallback None,
        ReaddirCallback (Inr [\<lparr>filename = js ''b.txt'', longname = js ''-rw-r--r-- 1 u g 2 b.txt''\<rparr>,
                              \<lparr>filename = js ''a'', longname = js ''drwxr-xr-x 2 u g 0 a''\<rparr>])]) =
     Some (Inr (VContent (js ''b.txt (-rw-r--r-- 1 u g 2 b.txt)\<newline>a (drwxr-xr-x 2 u g 0 a)'')))
   \<and> fst (sftp_list toString G w tr remotePath) \<noteq> Some (Inr listing)"
proof -
  let ?tr = "[Ready, SftpCallback None,
      ReaddirCallback (Inr [\<lparr>filename = js ''b.txt'', longname = js ''-rw-r--r-- 1 u g 2 b.txt''\<rparr>,
                            \<lparr>filename = js ''a'', longname = js ''drwxr-xr-x 2 u g 0 a''\<rparr>])]"
  have a: "sftp_list asciiText (sample_settings (Some (js ''secret'')) (Some (js ''/home/u/id''))) sample_world
      ?tr (js ''/srv'') =
     (Some (Inl (McpError InternalError (js ''List failed: '' @ js ''list.map is not a function''))),
      [Connect sample_config, SftpOpen, Readdir (js ''/srv''), ConnEnd])"
  proof -
    have "js ''list.map is not a function'' \<noteq> []" by (simp add: js_def)
    then show ?thesis
      by (simp add: sftp_list_def sample_build_password execSftpCommand_def)
  qed
  have b: "promise (execSftpCommand sample_config (ListDir (js ''/srv'')) ?tr) =
     Some (Inr (VContent (js ''b.txt (-rw-r--r-- 1 u g 2 b.txt)\<newline>a (drwxr-xr-x 2 u g 0 a)'')))"
    by (simp add: execSftpCommand_def formatEntry_def js_def)
  from a b sftp_list_never_returns[of toString G w tr remotePath listing]
  show ?thesis by (simp add: js_def)
qed

text \<open>
  C5. A download whose read stream emits the chunks and then \<open>end\<close> resolves with one
  buffer, the concatenation of the chunks in arrival order; before \<open>end\<close> the promise is
  pending; and on any trace at all, a download promise that resolved has seen \<open>end\<close>.
\<close>

theorem download_concatenates_chunks:
  "promise (execSftpCommand cfg (Download remotePath)
      (Ready # SftpCallback None # map ReadData chunks @ ReadEnd # rest))
     = Some (Inr (VBuffer (concat chunks)))
   \<and> promise (execSftpCommand cfg (Download remotePath)
      (Ready # SftpCallback None # map ReadData chunks)) = None
   \<and> (promise (execSftpCommand cfg (Download remotePath) tr) = Some (Inr v) \<longrightarrow> ReadEnd \<in> set tr)"
proof (intro conjI impI)
  show "promise (execSftpCommand cfg (Download remotePath)
      (Ready # SftpCallback None # map ReadData chunks @ ReadEnd # rest))
     = Some (Inr (VBuffer (concat chunks)))"
    by (simp add: execSftpCommand_def sftp_run_data sftp_run_settled)
  show "promise (execSftpCommand cfg (Download remotePath)
      (Ready # SftpCallback None # map ReadData chunks)) = None"
    using sftp_run_data[where rest="[]" and chunks=chunks]
    by (simp add: execSftpCommand_def)
  assume "promise (execSftpCommand cfg (Download remotePath) tr) = Some (Inr v)"
  then show "ReadEnd \<in> set tr"
    unfolding execSftpCommand_def by (rule download_resolves_at_end[rotated 2]) simp_all
qed

theorem download_concatenates_chunks_witness:
  "promise (execSftpCommand sample_config (Download (js ''/srv/f.bin''))
      [Ready, SftpCallback None, ReadData [1, 2], ReadData [], ReadData [3], ReadEnd])
     = Some (Inr (VBuffer [1, 2, 3]))
   \<and> ReadEnd \<in> set [Ready, SftpCallback None, ReadData [1, 2], ReadData [], ReadData [3], ReadEnd]"
  using download_concatenates_chunks[of sample_config "js ''/srv/f.bin''" "[[1, 2], [], [3]]" "[]"
          "[Ready, SftpCallback None, ReadData [1, 2], ReadData [], ReadData [3], ReadEnd]" "VBuffer [1, 2, 3]"]
  by simp

text \<open>
  C6, as amended. The configuration of every \<open>connect\<close> made by any of the four tools
  never holds both credentials. With a non-empty \<open>PASSWORD\<close> it holds the password and no
  key, whether or not \<open>KEY\<close> is set; with no password and a non-empty \<open>KEY\<close> it holds
  the decoded content of the key file and no password; so when at least one of the two is
  configured, exactly one credential is used. When neither is configured it holds no
  credential, and the connection is made all the same.
\<close>

theorem one_auth_variant_per_session:
  assumes "Connect cfg \<in> set (snd (sftp_upload toString G w tr localPath remotePath))
         \<or> Connect cfg \<in> set (fst (snd (sftp_download toString G w tr remotePath localPath)))
         \<or> Connect cfg \<in> set (snd (sftp_list toString G w tr remotePath))
         \<or> Connect cfg \<in> set (snd (exec_tool toString G w tr command))"
  shows "\<not> (password cfg \<noteq> None \<and> privateKey cfg \<noteq> None)
     \<and> (truthy (PASSWORD G) \<longrightarrow> password cfg = PASSWORD G \<and> privateKey cfg = None)
     \<and> (\<not> truthy (PASSWORD G) \<and> truthy (KEY G) \<longrightarrow>
          password cfg = None \<and> (\<exists>b. files w (the (KEY G)) = Inr b \<and> privateKey cfg = Some (toString b)))
     \<and> (truthy (PASSWORD G) \<or> truthy (KEY G) \<longrightarrow> (password cfg = None) \<noteq> (privateKey cfg = None))
     \<and> (\<not> truthy (PASSWORD G) \<and> \<not> truthy (KEY G) \<longrightarrow> password cfg = None \<and> privateKey cfg = None)"
proof -
  from assms have "\<exists>fx. buildSshConfig toString G w = (Inr cfg, fx)"
    by (auto dest: upload_connect download_connect list_connect exec_connect)
  then obtain fx where "buildSshConfig toString G w = (Inr cfg, fx)" ..
  then show ?thesis by (rule buildSshConfig_auth)
qed

theorem one_auth_variant_per_session_witness:
  "Connect sample_config \<in> set (snd (exec_tool asciiText
       (sample_settings (Some (js ''secret'')) (Some (js ''/home/u/id''))) sample_world [Ready] (js ''ls'')))
   \<and> password sample_config = Some (js ''secret'') \<and> privateKey sample_config = None
   \<and> Connect (sample_config\<lparr>password := None, privateKey := Some (js ''key'')\<rparr>)
        \<in> set (snd (sftp_list asciiText (sample_settings None (Some (js ''/home/u/id''))) sample_world [Ready] (js ''/tmp'')))
   \<and> password (sample_config\<lparr>password := None, privateKey := Some (js ''key'')\<rparr>) = None
   \<and> privateKey (sample_config\<lparr>password := None, privateKey := Some (js ''key'')\<rparr>) = Some (js ''key'')"
proof -
  have t: "trim (js ''ls'') \<noteq> []"
    by (simp add: trim_def js_def isWhiteSpace_def)
  have a: "Connect sample_config \<in> set (snd (exec_tool asciiText
       (sample_settings (Some (js ''secret'')) (Some (js ''/home/u/id''))) sample_world [Ready] (js ''ls'')))"
    using t by (simp add: exec_tool_def sample_build_password execSshCommand_def)
  have b: "Connect (sample_config\<lparr>password := None, privateKey := Some (js ''key'')\<rparr>)
        \<in> set (snd (sftp_list asciiText (sample_settings None (Some (js ''/home/u/id''))) sample_world [Ready] (js ''/tmp'')))"
    by (simp add: sftp_list_def sample_build_key execSftpCommand_def)
  from one_auth_variant_per_session[of sample_config asciiText
          "sample_settings (Some (js ''secret'')) (Some (js ''/home/u/id''))" sample_world "[Ready]"
          "js ''a''" "js ''b''" "js ''ls''"] a
  have "password sample_config = Some (js ''secret'') \<and> privateKey sample_config = None"
    by (simp add: sample_settings_def js_def)
  moreover
  from one_auth_variant_per_session[of "sample_config\<lparr>password := None, privateKey := Some (js ''key'')\<rparr>" asciiText
          "sample_settings None (Some (js ''/home/u/id''))" sample_world "[Ready]"
          "js ''a''" "js ''/tmp''" "js ''ls''"] b
  have "password (sample_config\<lparr>password := None, privateKey := Some (js ''key'')\<rparr>) = None
     \<and> privateKey (sample_config\<lparr>password := None, privateKey := Some (js ''key'')\<rparr>) = Some (js ''key'')"
    by simp
  ultimately show ?thesis using a b by simp
qed

text \<open>
  C6 as the spec states it fails: with neither a password nor a key configured, a server
  that lets the login through gives a session on which the command runs, and the
  configuration of that session holds no credential.
\<close>

theorem no_credential_counterexample:
  "exec_tool asciiText (sample_settings None None) sample_world
     [Ready, ExecCallback None, StdoutData [0x6F, 0x6B], StreamClose (Exit 0)] (js ''ls'') =
     (Some (Inr (VContent (js ''ok''))),
      [Connect (sample_config\<lparr>password := None\<rparr>), ExecCmd (js ''ls''), ConnEnd])
   \<and> password (sample_config\<lparr>password := None\<rparr>) = None
   \<and> privateKey (sample_config\<lparr>password := None\<rparr>) = None"
proof -
  have t: "trim (js ''ls'') \<noteq> []"
    by (simp add: trim_def js_def isWhiteSpace_def)
  have "exec_tool asciiText (sample_settings None None) sample_world
     [Ready, ExecCallback None, StdoutData [0x6F, 0x6B], StreamClose (Exit 0)] (js ''ls'') =
     (Some (Inr (VContent (asciiText [0x6F, 0x6B]))),
      [Connect (sample_config\<lparr>password := None\<rparr>), ExecCmd (js ''ls''), ConnEnd])"
    using t by (simp add: exec_tool_def sample_build_none execSshCommand_def)
  then show ?thesis by (simp add: asciiText_def js_def sample_config_def)
qed

text \<open>
  C7. When the first event of the connection is an error (the session was never ready), the
  promise of \<open>execSftpCommand\<close> and of \<open>execSshCommand\<close> is rejected with one
  \<open>McpError\<close> that carries the message of the underlying error after the prefix
  \<open>SFTP connection error:\<close> or \<open>SSH connection error:\<close>, and the only call made is the
  one \<open>connect\<close>: no second attempt, no SFTP or command request. Each tool throws that
  same error, having done nothing after the \<open>connect\<close>. The spec's \<open>ConnectionError\<close>
  is this rejection.
\<close>

theorem connection_error_before_ready:
  assumes "buildSshConfig toString G w = (Inr cfg, fx)"
  shows "promise (execSftpCommand cfg a (ConnError m # rest)) =
       Some (Inl (McpError InternalError (js ''SFTP connection error: '' @ m)))
   \<and> effects (execSftpCommand cfg a (ConnError m # rest)) = [Connect cfg]
   \<and> promise (execSshCommand toString cfg command (ConnError m # rest)) =
       Some (Inl (McpError InternalError (js ''SSH connection error: '' @ m)))
   \<and> effects (execSshCommand toString cfg command (ConnError m # rest)) = [Connect cfg]
   \<and> (files w localPath = Inr d \<longrightarrow>
        sftp_upload toString G w (ConnError m # rest) localPath remotePath =
          (Some (Inl (McpError InternalError (js ''SFTP connection error: '' @ m))),
           ReadFile localPath # fx @ [Connect cfg]))
   \<and> sftp_download toString G w (ConnError m # rest) remotePath localPath =
          (Some (Inl (McpError InternalError (js ''SFTP connection error: '' @ m))), fx @ [Connect cfg], w)
   \<and> sftp_list toString G w (ConnError m # rest) remotePath =
          (Some (Inl (McpError InternalError (js ''SFTP connection error: '' @ m))), fx @ [Connect cfg])
   \<and> (trim command \<noteq> [] \<longrightarrow>
        exec_tool toString G w (ConnError m # rest) command =
          (Some (Inl (McpError InternalError (js ''SSH connection error: '' @ m))), fx @ [Connect cfg]))"
proof -
  have s: "promise (execSftpCommand cfg a (ConnError m # rest)) =
       Some (Inl (McpError InternalError (js ''SFTP connection error: '' @ m)))"
     "effects (execSftpCommand cfg a (ConnError m # rest)) = [Connect cfg]" for a
    by (simp_all add: execSftpCommand_def sftp_run_settled)
  have x: "promise (execSshCommand toString cfg command (ConnError m # rest)) =
       Some (Inl (McpError InternalError (js ''SSH connection error: '' @ m)))"
     "effects (execSshCommand toString cfg command (ConnError m # rest)) = [Connect cfg]"
    by (simp_all add: execSshCommand_def exec_run_settled)
  show ?thesis
    using assms by (simp add: s x sftp_upload_def sftp_download_def sftp_list_def exec_tool_def)
qed

theorem connection_error_before_ready_witness:
  "exec_tool asciiText (sample_settings (Some (js ''secret'')) (Some (js ''/home/u/id''))) sample_world
     [ConnError (js ''connect ECONNREFUSED''), Ready, ExecCallback None, StreamClose (Exit 0)] (js ''ls'') =
     (Some (Inl (McpError InternalError (js ''SSH connection error: connect ECONNREFUSED''))),
      [Connect sample_config])
   \<and> sftp_upload asciiText (sample_settings (Some (js ''secret'')) (Some (js ''/home/u/id''))) sample_world
     [ConnError (js ''connect ECONNREFUSED''), Ready] (js ''/home/u/a.txt'') (js ''/srv/a.txt'') =
     (Some (Inl (McpError InternalError (js ''SFTP connection error: connect ECONNREFUSED''))),
      [ReadFile (js ''/home/u/a.txt''), Connect sample_config])"
proof -
  have t: "trim (js ''ls'') \<noteq> []"
    by (simp add: trim_def js_def isWhiteSpace_def)
  have f: "files sample_world (js ''/home/u/a.txt'') = Inr [0x68, 0x69]"
    by (simp add: sample_world_def)
  from connection_error_before_ready[OF sample_build_password,
      where m="js ''connect ECONNREFUSED''" and rest="[Ready, ExecCallback None, StreamClose (Exit 0)]"
        and command="js ''ls''"] t
  have a: "exec_tool asciiText (sample_settings (Some (js ''secret'')) (Some (js ''/home/u/id''))) sample_world
     [ConnError (js ''connect ECONNREFUSED''), Ready, ExecCallback None, StreamClose (Exit 0)] (js ''ls'') =
     (Some (Inl (McpError InternalError (js ''SSH connection error: '' @ js ''connect ECONNREFUSED''))),
      [Connect sample_config])" by simp
  from connection_error_before_ready[OF sample_build_password,
      where m="js ''connect ECONNREFUSED''" and rest="[Ready]"
        and localPath="js ''/home/u/a.txt''" and d="[0x68, 0x69]" and remotePath="js ''/srv/a.txt''"] f
  have b: "sftp_upload asciiText (sample_settings (Some (js ''secret'')) (Some (js ''/home/u/id''))) sample_world
     [ConnError (js ''connect ECONNREFUSED''), Ready] (js ''/home/u/a.txt'') (js ''/srv/a.txt'') =
     (Some (Inl (McpError InternalError (js ''SFTP connection error: '' @ js ''connect ECONNREFUSED''))),
      [ReadFile (js ''/home/u/a.txt''), Connect sample_config])" by simp
  from a b show ?thesis by (simp add: js_def)
qed

text \<open>
  C8, as amended. Module start throws (and no server is created) exactly when \<open>host\<close> is
  missing or empty, \<open>user\<close> is missing or empty, or a non-empty \<open>port\<close> is not a numeric
  literal for \<open>Number\<close>; nothing checks that the port is an integer or lies in 1..65535.
  With no port, or an empty one, \<open>PORT\<close> is 22; otherwise it is \<open>parseInt\<close> of the text.
\<close>

theorem startup_validation:
  "((\<exists>e. startup argv = Inl e) \<longleftrightarrow>
      \<not> truthy (parseArgv argv (js ''host'')) \<or> \<not> truthy (parseArgv argv (js ''user''))
      \<or> (truthy (parseArgv argv (js ''port'')) \<and> numberIsNaN (the (parseArgv argv (js ''port'')))))
   \<and> (startup argv = Inr G \<and> \<not> truthy (parseArgv argv (js ''port'')) \<longrightarrow> PORT G = Num 22)
   \<and> (startup argv = Inr G \<and> truthy (parseArgv argv (js ''port'')) \<longrightarrow>
        PORT G = parseInt (the (parseArgv argv (js ''port''))))"
proof (intro conjI impI)
  show "(\<exists>e. startup argv = Inl e) \<longleftrightarrow>
      \<not> truthy (parseArgv argv (js ''host'')) \<or> \<not> truthy (parseArgv argv (js ''user''))
      \<or> (truthy (parseArgv argv (js ''port'')) \<and> numberIsNaN (the (parseArgv argv (js ''port''))))"
    unfolding startup_Inl validateConfig_ok by blast
next
  assume "startup argv = Inr G \<and> \<not> truthy (parseArgv argv (js ''port''))"
  then show "PORT G = Num 22" by (auto dest!: startup_Inr simp: readSettings_def)
next
  assume "startup argv = Inr G \<and> truthy (parseArgv argv (js ''port''))"
  then show "PORT G = parseInt (the (parseArgv argv (js ''port'')))"
    by (auto dest!: startup_Inr simp: readSettings_def)
qed

theorem startup_validation_witness:
  "startup [js ''--host=example.org'', js ''--user=root''] =
     Inr \<lparr> HOST = Some (js ''example.org''), PORT = Num 22, USER = Some (js ''root''),
           PASSWORD = None, KEY = None \<rparr>
   \<and> (\<exists>e. startup [js ''--host=example.org'', js ''--user=root'', js ''--port=ssh''] = Inl e)"
proof -
  have m: "matchArg (js ''--port=ssh'') = Some (js ''port'', js ''ssh'')"
    "matchArg (js ''--host=example.org'') = Some (js ''host'', js ''example.org'')"
    "matchArg (js ''--user=root'') = Some (js ''user'', js ''root'')"
    by (simp_all add: matchArg_def js_def isLineTerminator_def)
  let ?a = "[js ''host'' \<mapsto> js ''example.org'', js ''user'' \<mapsto> js ''root'']"
  let ?b = "[js ''host'' \<mapsto> js ''example.org'', js ''user'' \<mapsto> js ''root'', js ''port'' \<mapsto> js ''ssh'']"
  have a: "parseArgv [js ''--host=example.org'', js ''--user=root''] = ?a"
    and b: "parseArgv [js ''--host=example.org'', js ''--user=root'', js ''--port=ssh''] = ?b"
    using m by (simp_all add: parseArgv_def)
  have ha: "?a (js ''host'') = Some (js ''example.org'')" "?a (js ''user'') = Some (js ''root'')"
    "?a (js ''port'') = None" "?a (js ''password'') = None" "?a (js ''key'') = None"
    by (simp_all add: js_def)
  have hb: "?b (js ''port'') = Some (js ''ssh'')"
    by (simp_all add: js_def)
  have t: "truthy (Some (js ''example.org''))" "truthy (Some (js ''root''))" "truthy (Some (js ''ssh''))"
    by (simp_all add: js_def)
  have n: "numberIsNaN (js ''ssh'')"
    by (simp add: numberIsNaN_def js_def trim_def isWhiteSpace_def isStrDecimalLiteral_def
          isStrUnsignedDecimalLiteral_def isDigit_def isExponentPartOpt_def isNonDecimalIntegerLiteral_def)
  have va: "validateConfig ?a = Inr ()"
    unfolding validateConfig_ok ha using t by simp
  then have sa: "startup [js ''--host=example.org'', js ''--user=root''] = Inr (readSettings ?a)"
    unfolding startup_def a Let_def by simp
  from startup_validation[of "[js ''--host=example.org'', js ''--user=root'']" "readSettings ?a"] sa
  have "PORT (readSettings ?a) = Num 22" unfolding a ha by simp
  then have ra: "readSettings ?a = \<lparr> HOST = Some (js ''example.org''), PORT = Num 22, USER = Some (js ''root''),
           PASSWORD = None, KEY = None \<rparr>"
    by (simp add: readSettings_def js_def)
  from startup_validation[of "[js ''--host=example.org'', js ''--user=root'', js ''--port=ssh'']"]
  have "\<exists>e. startup [js ''--host=example.org'', js ''--user=root'', js ''--port=ssh''] = Inl e"
    unfolding b hb using n t by simp
  with sa ra show ?thesis by simp
qed

text \<open>
  C8 as the spec states it fails: the port 70000 passes validation and becomes \<open>PORT\<close>.
\<close>

theorem port_range_counterexample:
  "startup [js ''--host=example.org'', js ''--user=root'', js ''--port=70000''] =
     Inr \<lparr> HOST = Some (js ''example.org''), PORT = Num 70000, USER = Some (js ''root''),
           PASSWORD = None, KEY = None \<rparr>"
proof -
  let ?c = "[js ''host'' \<mapsto> js ''example.org'', js ''user'' \<mapsto> js ''root'', js ''port'' \<mapsto> js ''70000'']"
  have h: "?c (js ''host'') = Some (js ''example.org'')" "?c (js ''user'') = Some (js ''root'')"
    "?c (js ''port'') = Some (js ''70000'')" "?c (js ''password'') = None" "?c (js ''key'') = None"
    by (simp_all add: js_def)
  have t: "truthy (Some (js ''example.org''))" "truthy (Some (js ''root''))" "truthy (Some (js ''70000''))"
    by (simp_all add: js_def)
  have n: "\<not> numberIsNaN (js ''70000'')"
    by (simp add: numberIsNaN_def js_def trim_def isWhiteSpace_def isStrDecimalLiteral_def
          isStrUnsignedDecimalLiteral_def isDigit_def isExponentPartOpt_def)
  have p: "parseInt (js ''70000'') = Num 70000"
    by (simp add: parseInt_def js_def isWhiteSpace_def isDigit_def digitVal_def)
  have v: "validateConfig ?c = Inr ()"
    unfolding validateConfig_ok h using n t by simp
  have r: "readSettings ?c = \<lparr> HOST = Some (js ''example.org''), PORT = Num 70000, USER = Some (js ''root''),
           PASSWORD = None, KEY = None \<rparr>"
    unfolding readSettings_def h using t p by simp
  show ?thesis unfolding startup_def sample_argv Let_def v r by simp
qed

text \<open>
  C9. In the \<open>sftp_download\<close> tool a file is written only at \<open>localPath\<close>, only as the
  last effect of the call, and only with the buffer the download promise resolved with.
  Whenever the promise does not resolve with a buffer (the configuration cannot be built,
  the promise is rejected or pending, or the value is not a buffer) no \<open>WriteFile\<close> is
  made and the file system is unchanged. No other path is ever touched.
\<close>

theorem download_writes_only_a_buffer:
  "sftp_download toString G w tr remotePath localPath = (out, fx, w') \<Longrightarrow>
     (WriteFile p d \<in> set fx \<longrightarrow>
        p = localPath \<and> last fx = WriteFile p d
        \<and> (\<exists>cfg fx0. buildSshConfig toString G w = (Inr cfg, fx0)
              \<and> promise (execSftpCommand cfg (Download remotePath) tr) = Some (Inr (VBuffer d))))
   \<and> ((\<forall>cfg fx0 b. buildSshConfig toString G w = (Inr cfg, fx0) \<longrightarrow>
           promise (execSftpCommand cfg (Download remotePath) tr) \<noteq> Some (Inr (VBuffer b)))
        \<longrightarrow> w' = w \<and> (\<forall>q c. WriteFile q c \<notin> set fx))
   \<and> (\<forall>q. q \<noteq> localPath \<longrightarrow> files w' q = files w q)"
  by (auto simp: sftp_download_def Let_def build_no_write sftp_no_write
        split: sum.splits prod.splits option.splits jsValue.splits)

theorem download_writes_only_a_buffer_witness:
  "sftp_download asciiText (sample_settings (Some (js ''secret'')) (Some (js ''/home/u/id''))) sample_world
     [Ready, SftpCallback None, ReadData [1, 2], ReadData [3], ReadEnd] (js ''/srv/f.bin'') (js ''/home/u/f.bin'') =
     (Some (Inr (js ''File downloaded to /home/u/f.bin'')),
      [Connect sample_config, SftpOpen, CreateReadStream (js ''/srv/f.bin''), ConnEnd,
       WriteFile (js ''/home/u/f.bin'') [1, 2, 3]],
      sample_world\<lparr>files := (files sample_world)(js ''/home/u/f.bin'' := Inr [1, 2, 3])\<rparr>)
   \<and> promise (execSftpCommand sample_config (Download (js ''/srv/f.bin''))
        [Ready, SftpCallback None, ReadData [1, 2], ReadData [3], ReadEnd]) = Some (Inr (VBuffer [1, 2, 3]))
   \<and> sftp_download asciiText (sample_settings (Some (js ''secret'')) (Some (js ''/home/u/id''))) sample_world
     [Ready, SftpCallback (Some (js ''Channel open failure''))] (js ''/srv/f.bin'') (js ''/home/u/f.bin'') =
     (Some (Inl (McpError InternalError (js ''SFTP error: Channel open failure''))),
      [Connect sample_config, SftpOpen, ConnEnd], sample_world)"
proof -
  let ?G = "sample_settings (Some (js ''secret'')) (Some (js ''/home/u/id''))"
  let ?ok = "[Ready, SftpCallback None, ReadData [1, 2], ReadData [3], ReadEnd]"
  let ?bad = "[Ready, SftpCallback (Some (js ''Channel open failure''))]"
  have w: "write_error sample_world (js ''/home/u/f.bin'') = None"
    by (simp add: sample_world_def)
  have p: "promise (execSftpCommand sample_config (Download (js ''/srv/f.bin'')) ?ok) = Some (Inr (VBuffer [1, 2, 3]))"
    by (simp add: execSftpCommand_def)
  have a: "sftp_download asciiText ?G sample_world ?ok (js ''/srv/f.bin'') (js ''/home/u/f.bin'') =
     (Some (Inr (js ''File downloaded to '' @ js ''/home/u/f.bin'')),
      [Connect sample_config, SftpOpen, CreateReadStream (js ''/srv/f.bin''), ConnEnd,
       WriteFile (js ''/home/u/f.bin'') [1, 2, 3]],
      sample_world\<lparr>files := (files sample_world)(js ''/home/u/f.bin'' := Inr [1, 2, 3])\<rparr>)"
    by (simp add: sftp_download_def sample_build_password execSftpCommand_def w)
  have b: "sftp_download asciiText ?G sample_world ?bad (js ''/srv/f.bin'') (js ''/home/u/f.bin'') =
     (Some (Inl (McpError InternalError (js ''SFTP error: '' @ js ''Channel open failure''))),
      [Connect sample_config, SftpOpen, ConnEnd], sample_world)"
    by (simp add: sftp_download_def sample_build_password execSftpCommand_def)
  from download_writes_only_a_buffer[OF a, of "js ''/home/u/f.bin''" "[1, 2, 3]"]
  have "\<exists>cfg fx0. buildSshConfig asciiText ?G sample_world = (Inr cfg, fx0)
          \<and> promise (execSftpCommand cfg (Download (js ''/srv/f.bin'')) ?ok) = Some (Inr (VBuffer [1, 2, 3]))"
    by simp
  then have p': "promise (execSftpCommand sample_config (Download (js ''/srv/f.bin'')) ?ok) = Some (Inr (VBuffer [1, 2, 3]))"
    by (simp add: sample_build_password)
  from a b p' show ?thesis by (simp add: js_def)
qed

text \<open>
  C10. The first effect of every \<open>sftp_upload\<close> call is the read of \<open>localPath\<close>, so it
  precedes any \<open>connect\<close>; when that read fails, the call throws \<open>Upload failed:\<close> with
  the message of the error and has made no other effect, in particular no \<open>connect\<close>; and
  whatever the call writes to the remote stream is the whole content read from \<open>localPath\<close>.
\<close>

theorem upload_reads_local_file_first:
  "take 1 (snd (sftp_upload toString G w tr localPath remotePath)) = [ReadFile localPath]
   \<and> (files w localPath = Inl e \<longrightarrow>
        sftp_upload toString G w tr localPath remotePath =
          (Some (Inl (rethrow (js ''Upload failed: '') e)), [ReadFile localPath]))
   \<and> (StreamWrite b \<in> set (snd (sftp_upload toString G w tr localPath remotePath)) \<longrightarrow>
        files w localPath = Inr b)"
proof (intro conjI impI)
  show "take 1 (snd (sftp_upload toString G w tr localPath remotePath)) = [ReadFile localPath]"
    by (simp add: sftp_upload_def Let_def split: sum.splits prod.splits)
  show "sftp_upload toString G w tr localPath remotePath =
          (Some (Inl (rethrow (js ''Upload failed: '') e)), [ReadFile localPath])"
    if "files w localPath = Inl e"
    using that by (simp add: sftp_upload_def)
  show "files w localPath = Inr b"
    if "StreamWrite b \<in> set (snd (sftp_upload toString G w tr localPath remotePath))"
    using that
    by (auto simp: sftp_upload_def Let_def split: sum.splits prod.splits
          dest: buildSshConfig_effects execSftpCommand_effects)
qed

theorem upload_reads_local_file_first_witness:
  "sftp_upload asciiText (sample_settings (Some (js ''secret'')) (Some (js ''/home/u/id''))) sample_world
     [Ready, SftpCallback None, WriteClose] (js ''/home/u/missing'') (js ''/srv/a.txt'') =
     (Some (Inl (McpError InternalError (js ''Upload failed: ENOENT: no such file or directory''))),
      [ReadFile (js ''/home/u/missing'')])
   \<and> snd (sftp_upload asciiText (sample_settings (Some (js ''secret'')) (Some (js ''/home/u/id''))) sample_world
     [Ready, SftpCallback None, WriteClose] (js ''/home/u/a.txt'') (js ''/srv/a.txt'')) =
     [ReadFile (js ''/home/u/a.txt''), Connect sample_config, SftpOpen, CreateWriteStream (js ''/srv/a.txt''),
      StreamWrite [0x68, 0x69], StreamEnd, ConnEnd]
   \<and> files sample_world (js ''/home/u/a.txt'') = Inr [0x68, 0x69]"
proof -
  have m: "files sample_world (js ''/home/u/missing'') =
      Inl (JsError (js ''Error'') (js ''ENOENT: no such file or directory''))"
    by (simp add: sample_world_def js_def)
  have f: "files sample_world (js ''/home/u/a.txt'') = Inr [0x68, 0x69]"
    by (simp add: sample_world_def)
  have e: "snd (sftp_upload asciiText (sample_settings (Some (js ''secret'')) (Some (js ''/home/u/id''))) sample_world
     [Ready, SftpCallback None, WriteClose] (js ''/home/u/a.txt'') (js ''/srv/a.txt'')) =
     [ReadFile (js ''/home/u/a.txt''), Connect sample_config, SftpOpen, CreateWriteStream (js ''/srv/a.txt''),
      StreamWrite [0x68, 0x69], StreamEnd, ConnEnd]"
    by (simp add: sftp_upload_def f sample_build_password execSftpCommand_def)
  from upload_reads_local_file_first[of asciiText
      "sample_settings (Some (js ''secret'')) (Some (js ''/home/u/id''))" sample_world
      "[Ready, SftpCallback None, WriteClose]" "js ''/home/u/missing''" "js ''/srv/a.txt''"
      "JsError (js ''Error'') (js ''ENOENT: no such file or directory'')" "[]"] m
  have a: "sftp_upload asciiText (sample_settings (Some (js ''secret'')) (Some (js ''/home/u/id''))) sample_world
     [Ready, SftpCallback None, WriteClose] (js ''/home/u/missing'') (js ''/srv/a.txt'') =
     (Some (Inl (McpError InternalError (js ''Upload failed: '' @ js ''ENOENT: no such file or directory''))),
      [ReadFile (js ''/home/u/missing'')])"
    by (simp add: js_def)
  from upload_reads_local_file_first[of asciiText
      "sample_settings (Some (js ''secret'')) (Some (js ''/home/u/id''))" sample_world
      "[Ready, SftpCallback None, WriteClose]" "js ''/home/u/a.txt''" "js ''/srv/a.txt''"
      "JsError [] []" "[0x68, 0x69]"] e
  have b: "files sample_world (js ''/home/u/a.txt'') = Inr [0x68, 0x69]" by simp
  from a b e show ?thesis by (simp add: js_def)
qed

end
